theory Spec2Isabelle
  imports Complex_Main "HOL-Library.Sublist"
begin

section \<open>JavaScript numbers\<close>

text \<open>
  The numbers of the program are JavaScript numbers (finite IEEE-754 doubles, each of
  them a real). Comparing two of them is comparing the reals; adding and dividing them
  rounds. The rounding addition and division of the JavaScript engine are not code of
  this repository: they are arguments, \<open>fadd\<close> for \<^verbatim>\<open>+\<close> and \<open>fdiv\<close> for \<^verbatim>\<open>/\<close>. (A result
  that overflows to \<^verbatim>\<open>Infinity\<close> is outside the model.)
\<close>

record float_arith =
  fadd :: "real \<Rightarrow> real \<Rightarrow> real"
  fdiv :: "real \<Rightarrow> real \<Rightarrow> real"

text \<open>
  Rounding to nearest keeps the order: of two dividends the larger does not give the
  smaller quotient. This is all that is ever assumed of \<open>fdiv\<close>, and only where two
  elapsed times are compared.
\<close>

definition monotone_fdiv :: "float_arith \<Rightarrow> bool" where
  "monotone_fdiv ar = (\<forall>a b c. a \<le> b \<and> 0 < c \<longrightarrow> fdiv ar a c \<le> fdiv ar b c)"

section \<open>WarningMonitor: services/warningService.js\<close>

text \<open>
  A telemetry snapshot is a JavaScript object read by field name
  (\<^verbatim>\<open>systemState[warningType.parameter]\<close>); a field that is absent, null or
  undefined is \<open>None\<close>. Instants are milliseconds since the epoch, as
  \<^verbatim>\<open>new Date(...)\<close> compares them. The clock is an argument of every function
  that reads it: \<open>now\<close> for \<^verbatim>\<open>new Date()\<close>/\<^verbatim>\<open>Date.now()\<close> and \<open>hour\<close> for
  \<^verbatim>\<open>new Date().getHours()\<close>.
\<close>

type_synonym system_state = "string \<rightharpoonup> real"

record warning_type =
  wt_id :: string
  wt_name :: string
  wt_description :: string
  parameter :: string
  condition :: string
  threshold :: real
  wt_enabled :: bool
  wt_priority :: string
  cooldownMinutes :: real
  timeCondition :: "string option"

record triggered_info =
  tr_parameter :: string
  tr_value :: real
  tr_threshold :: real
  tr_condition :: string

record warning_instance =
  instance_id :: int
  warningTypeId :: string
  timestamp :: int
  systemState :: system_state
  title :: string
  description :: string
  priority :: string
  triggered :: triggered_info

text \<open>
  The persisted document \<^verbatim>\<open>warnings_config.json\<close>. Every function of the service
  re-reads it with \<^verbatim>\<open>getConfig()\<close> and writes it back with \<^verbatim>\<open>saveConfig\<close>; the
  functions of this section take the document and return the one they write (reading
  and writing the file itself are modelled further down, with their failures). The cap
  \<^verbatim>\<open>maxHistoryItems\<close> is a count, a natural number.
\<close>

record warnings_config =
  wc_enabled :: bool
  warningTypes :: "warning_type list"
  warningHistory :: "warning_instance list"
  maxHistoryItems :: nat

definition defaultConfig :: warnings_config where
  "defaultConfig =
     \<lparr>wc_enabled = True, warningTypes = [], warningHistory = [], maxHistoryItems = 100\<rparr>"

definition getWarningTypeById :: "warnings_config \<Rightarrow> string \<Rightarrow> warning_type option" where
  "getWarningTypeById config i = find (\<lambda>warning. wt_id warning = i) (warningTypes config)"

definition isDaytime :: "nat \<Rightarrow> bool" where
  "isDaytime hour = (hour \<ge> 8 \<and> hour \<le> 18)"

text \<open>
  \<^verbatim>\<open>history.filter(...).sort((a, b) => new Date(b.timestamp) - new Date(a.timestamp))[0]\<close>:
  a stable sort, newest first; the head of an empty array is \<^verbatim>\<open>undefined\<close>.
\<close>

definition recentWarning :: "warnings_config \<Rightarrow> string \<Rightarrow> warning_instance option" where
  "recentWarning config warningTypeId' =
     (case sort_key (\<lambda>w. - timestamp w)
             (filter (\<lambda>w. warningTypeId w = warningTypeId') (warningHistory config)) of
        [] \<Rightarrow> None
      | w # _ \<Rightarrow> Some w)"

text \<open>
  \<^verbatim>\<open>(currentTime - warningTime) / (1000 * 60)\<close>: the difference of two dates is a whole
  number of milliseconds, and the division by 60000 rounds.
\<close>

definition isWarningOnCooldown :: "float_arith \<Rightarrow> warnings_config \<Rightarrow> int \<Rightarrow> string \<Rightarrow> bool" where
  "isWarningOnCooldown ar config now warningTypeId' =
     (case getWarningTypeById config warningTypeId' of
        None \<Rightarrow> True
      | Some warningType \<Rightarrow>
          (case recentWarning config warningTypeId' of
             None \<Rightarrow> False
           | Some recent \<Rightarrow>
               (let elapsedMinutes = fdiv ar (real_of_int (now - timestamp recent)) (1000 * 60)
                in elapsedMinutes < cooldownMinutes warningType)))"

definition evaluateCondition :: "string \<Rightarrow> real \<Rightarrow> real \<Rightarrow> bool" where
  "evaluateCondition cond currentValue thresholdValue =
     (if cond = ''lt'' then currentValue < thresholdValue
      else if cond = ''gt'' then currentValue > thresholdValue
      else if cond = ''eq'' then currentValue = thresholdValue
      else if cond = ''lte'' then currentValue \<le> thresholdValue
      else if cond = ''gte'' then currentValue \<ge> thresholdValue
      else False)"

definition addWarningToHistory :: "warning_instance \<Rightarrow> warnings_config \<Rightarrow> warnings_config" where
  "addWarningToHistory warningInstance config =
     (let history = warningInstance # warningHistory config
      in config\<lparr>warningHistory :=
           (if length history > maxHistoryItems config
            then take (maxHistoryItems config) history
            else history)\<rparr>)"

definition clearWarningHistory :: "warnings_config \<Rightarrow> warnings_config" where
  "clearWarningHistory config = config\<lparr>warningHistory := []\<rparr>"

text \<open>A sequence of insertions, oldest first.\<close>

definition addWarningsToHistory :: "warning_instance list \<Rightarrow> warnings_config \<Rightarrow> warnings_config" where
  "addWarningsToHistory es config = foldl (\<lambda>c e. addWarningToHistory e c) config es"

definition warningInstance :: "warning_type \<Rightarrow> int \<Rightarrow> system_state \<Rightarrow> real \<Rightarrow> warning_instance" where
  "warningInstance warningType now st currentValue =
     \<lparr>instance_id = now,
      warningTypeId = wt_id warningType,
      timestamp = now,
      systemState = st,
      title = wt_name warningType,
      description = wt_description warningType,
      priority = wt_priority warningType,
      triggered =
        \<lparr>tr_parameter = parameter warningType,
         tr_value = currentValue,
         tr_threshold = threshold warningType,
         tr_condition = condition warningType\<rparr>\<rparr>"

text \<open>
  The body of the \<^verbatim>\<open>forEach\<close> of \<^verbatim>\<open>checkWarnings\<close>: the events triggered so far and
  the persisted document, before and after one rule.
\<close>

definition checkWarning ::
  "float_arith \<Rightarrow> int \<Rightarrow> nat \<Rightarrow> system_state \<Rightarrow> warning_type \<Rightarrow>
   warning_instance list \<times> warnings_config \<Rightarrow> warning_instance list \<times> warnings_config" where
  "checkWarning ar now hour st warningType acc =
     (case acc of (triggeredWarnings, config) \<Rightarrow>
        if isWarningOnCooldown ar config now (wt_id warningType) then acc
        else if timeCondition warningType = Some ''daytime'' \<and> \<not> isDaytime hour then acc
        else
          (case st (parameter warningType) of
             None \<Rightarrow> acc
           | Some currentValue \<Rightarrow>
               if evaluateCondition (condition warningType) currentValue (threshold warningType)
               then
                 (let inst = warningInstance warningType now st currentValue
                  in (triggeredWarnings @ [inst], addWarningToHistory inst config))
               else acc))"

definition checkWarnings ::
  "float_arith \<Rightarrow> int \<Rightarrow> nat \<Rightarrow> system_state \<Rightarrow> warnings_config \<Rightarrow> warning_instance list \<times> warnings_config" where
  "checkWarnings ar now hour st config =
     (if \<not> wc_enabled config then ([], config)
      else
        (let enabledWarnings = filter wt_enabled (warningTypes config)
         in if length enabledWarnings = 0 then ([], config)
            else foldl (\<lambda>acc warningType. checkWarning ar now hour st warningType acc)
                   ([], config) enabledWarnings))"

section \<open>PriceProvider: services/tibberService.js\<close>

text \<open>
  Prices are JavaScript numbers, taken here as reals; \<open>startsAt\<close> is the instant that
  \<^verbatim>\<open>new Date(price.startsAt)\<close> denotes, in milliseconds. A \<^verbatim>\<open>null\<close> is \<open>None\<close>.
\<close>

record price_point =
  total :: real
  energy :: real
  tax :: real
  level :: string
  startsAt :: int
  currency :: string

record tibber_config =
  enabled :: bool
  apiKey :: string
  homeId :: string
  country :: string
  timezone :: string
  cfg_currency :: string
  targetSoC :: real
  minimumSoC :: real
  maxPriceThreshold :: "real option"
  usePriceLevels :: bool
  allowedPriceLevels :: "string list"

record price_info =
  pi_current :: price_point
  pi_today :: "price_point list"
  pi_tomorrow :: "price_point list"

record tibber_cache =
  currentPrice :: "price_point option"
  priceInfo :: "price_info option"
  forecast :: "price_point list"
  consumption :: "unit option"
  cache_timestamp :: "int option"

record tibber_service =
  svc_config :: tibber_config
  svc_cache :: tibber_cache
  lastUpdate :: "int option"

definition defaultTibberConfig :: tibber_config where
  "defaultTibberConfig =
     \<lparr>enabled = False, apiKey = [], homeId = [], country = ''DE'',
      timezone = ''Europe/Berlin'', cfg_currency = ''EUR'', targetSoC = 80, minimumSoC = 20,
      maxPriceThreshold = None, usePriceLevels = True,
      allowedPriceLevels = [''VERY_CHEAP'', ''CHEAP'', ''NORMAL'']\<rparr>"

definition emptyCache :: tibber_cache where
  "emptyCache =
     \<lparr>currentPrice = None, priceInfo = None, forecast = [], consumption = None,
      cache_timestamp = None\<rparr>"

subsection \<open>Derived price signals\<close>

text \<open>
  \<^verbatim>\<open>this.cache.forecast.filter(price => new Date(price.startsAt) > now).slice(0, hours)\<close>,
  shared by \<^verbatim>\<open>calculateAveragePrice\<close> and \<^verbatim>\<open>getCheapestHours\<close>.
\<close>

definition futureHours :: "tibber_service \<Rightarrow> int \<Rightarrow> nat \<Rightarrow> price_point list" where
  "futureHours svc now hours =
     take hours (filter (\<lambda>price. startsAt price > now) (forecast (svc_cache svc)))"

text \<open>
  \<^verbatim>\<open>futureHours.reduce((acc, p) => acc + p.total, 0) / futureHours.length\<close>: the sum is taken
  from the left, starting at 0, and each step and the division round.
\<close>

definition calculateAveragePrice :: "float_arith \<Rightarrow> tibber_service \<Rightarrow> int \<Rightarrow> nat \<Rightarrow> real option" where
  "calculateAveragePrice ar svc now hours =
     (if length (forecast (svc_cache svc)) = 0 then None
      else if length (futureHours svc now hours) = 0 then None
      else Some (fdiv ar (foldl (\<lambda>acc p. fadd ar acc (total p)) 0 (futureHours svc now hours))
                   (real (length (futureHours svc now hours)))))"

record cheap_hour =
  ch_time :: int
  ch_price :: real
  ch_level :: string

text \<open>
  \<^verbatim>\<open>Array.prototype.sort\<close> with the comparator \<^verbatim>\<open>(a, b) => a.total - b.total\<close> is a
  stable sort by \<open>total\<close>; \<open>sort_key\<close> is the stable insertion sort.
\<close>

definition cheapHour :: "price_point \<Rightarrow> cheap_hour" where
  "cheapHour price = \<lparr>ch_time = startsAt price, ch_price = total price, ch_level = level price\<rparr>"

definition getCheapestHours :: "tibber_service \<Rightarrow> int \<Rightarrow> nat \<Rightarrow> nat \<Rightarrow> cheap_hour list" where
  "getCheapestHours svc now count hoursAhead =
     (if length (forecast (svc_cache svc)) = 0 then []
      else map cheapHour (take count (sort_key total (futureHours svc now hoursAhead))))"

text \<open>
  \<^verbatim>\<open>isPriceGood(currentPrice = null)\<close>; the average is taken with the default
  \<^verbatim>\<open>hours = 24\<close>. A threshold that is \<^verbatim>\<open>undefined\<close> rather than \<^verbatim>\<open>null\<close> passes the
  \<^verbatim>\<open>!== null\<close> test and then fails the comparison, which gives the same \<open>False\<close> as the
  last line.
\<close>

definition isPriceGood :: "float_arith \<Rightarrow> tibber_service \<Rightarrow> int \<Rightarrow> price_point option \<Rightarrow> bool" where
  "isPriceGood ar svc now currentPrice' =
     (case (case currentPrice' of Some p \<Rightarrow> Some p | None \<Rightarrow> currentPrice (svc_cache svc)) of
        None \<Rightarrow> False
      | Some price \<Rightarrow>
          if usePriceLevels (svc_config svc)
          then level price \<in> set (allowedPriceLevels (svc_config svc))
          else
            (case calculateAveragePrice ar svc now 24 of
               Some avgPrice \<Rightarrow> total price < avgPrice
             | None \<Rightarrow>
                 (case maxPriceThreshold (svc_config svc) of
                    Some t \<Rightarrow> total price \<le> t
                  | None \<Rightarrow> False)))"

subsection \<open>Refreshing the cache\<close>

text \<open>
  Errors thrown by the JavaScript are values: \<open>Inl\<close> of a \<open>js_error\<close> is a \<^verbatim>\<open>throw\<close>, and
  a function that can throw after it has changed the service returns the service next to
  its result.
\<close>

datatype js_error = AxiosError string | SyntaxError string | TypeError string | Error string

text \<open>
  What the price API answers, in major currency units. A field that is \<^verbatim>\<open>null\<close> is
  \<open>None\<close>; \<open>home_priceInfo\<close> is \<^verbatim>\<open>home.currentSubscription.priceInfo\<close>, \<open>None\<close> when the
  subscription or its price information is \<^verbatim>\<open>null\<close> (reading through either throws a
  TypeError before anything is stored).
\<close>

record api_price_info =
  api_current :: "price_point option"
  api_today :: "price_point list option"
  api_tomorrow :: "price_point list option"

record api_home =
  home_id :: string
  home_priceInfo :: "api_price_info option"

record api_viewer =
  viewer_home :: "api_home option"
  viewer_homes :: "api_home list option"

datatype graphql_query = GetPriceInfo string | GetFirstHomePriceInfo

text \<open>
  The outcome of \<^verbatim>\<open>axios.post\<close>: the promise rejects (no connection, time-out after 15
  seconds, an HTTP error status such as 401), or the body carries \<^verbatim>\<open>errors\<close> (the API's
  way to reject a token or a query), or it carries \<^verbatim>\<open>data\<close>.
\<close>

datatype graphql_response =
  RequestFailed js_error
  | ResponseErrors "string list"
  | ResponseData "api_viewer option"

type_synonym price_api = "string \<Rightarrow> graphql_query \<Rightarrow> graphql_response"

definition makeGraphQLRequest :: "price_api \<Rightarrow> tibber_service \<Rightarrow> graphql_query \<Rightarrow> js_error + api_viewer option" where
  "makeGraphQLRequest api svc query =
     (case api (apiKey (svc_config svc)) query of
        RequestFailed e \<Rightarrow> Inl e
      | ResponseErrors errors \<Rightarrow>
          (case errors of
             [] \<Rightarrow> Inl (TypeError ''errors[0] is undefined'')
           | message # _ \<Rightarrow> Inl (Error message))
      | ResponseData d \<Rightarrow> Inr d)"

definition convertPrice :: "price_point \<Rightarrow> price_point" where
  "convertPrice price =
     price\<lparr>total := total price * 100, energy := energy price * 100, tax := tax price * 100,
           currency := ''cent''\<rparr>"

text \<open>
  \<^verbatim>\<open>saveCache\<close>: the write to the time-series store is attempted and every failure of it
  is caught inside \<^verbatim>\<open>saveCacheToInfluxDB\<close>; the service itself only gets the time stamp.
\<close>

definition saveCache :: "int \<Rightarrow> tibber_service \<Rightarrow> tibber_service" where
  "saveCache now svc = svc\<lparr>svc_cache := (svc_cache svc)\<lparr>cache_timestamp := Some now\<rparr>\<rparr>"

text \<open>
  The conversion and the stores that \<^verbatim>\<open>getCurrentPriceInfo\<close> and
  \<^verbatim>\<open>getPriceInfoFromFirstHome\<close> both run on the \<^verbatim>\<open>priceInfo\<close> they were answered.
\<close>

definition cachePriceInfo ::
  "int \<Rightarrow> api_price_info option \<Rightarrow> tibber_service \<Rightarrow> (js_error + price_info) \<times> tibber_service" where
  "cachePriceInfo now priceInfo' svc =
     (case priceInfo' of
        None \<Rightarrow> (Inl (TypeError ''priceInfo is null''), svc)
      | Some pinfo \<Rightarrow>
          (case api_current pinfo of
             None \<Rightarrow> (Inl (TypeError ''priceInfo.current is null''), svc)
           | Some cur \<Rightarrow>
               (case api_today pinfo of
                  None \<Rightarrow> (Inl (TypeError ''priceInfo.today is null''), svc)
                | Some today \<Rightarrow>
                    (let convertedCurrent = convertPrice cur;
                         convertedToday = map convertPrice today;
                         convertedTomorrow =
                           map convertPrice (case api_tomorrow pinfo of None \<Rightarrow> [] | Some t \<Rightarrow> t);
                         info = \<lparr>pi_current = convertedCurrent, pi_today = convertedToday,
                                 pi_tomorrow = convertedTomorrow\<rparr>;
                         svc1 = svc\<lparr>svc_cache := (svc_cache svc)
                                   \<lparr>currentPrice := Some convertedCurrent,
                                    priceInfo := Some info,
                                    forecast := convertedToday @ convertedTomorrow\<rparr>,
                                  lastUpdate := Some now\<rparr>
                     in (Inr info, saveCache now svc1)))))"

definition getPriceInfoFromFirstHome ::
  "price_api \<Rightarrow> int \<Rightarrow> tibber_service \<Rightarrow> (js_error + price_info) \<times> tibber_service" where
  "getPriceInfoFromFirstHome api now svc =
     (case makeGraphQLRequest api svc GetFirstHomePriceInfo of
        Inl e \<Rightarrow> (Inl e, svc)
      | Inr None \<Rightarrow> (Inl (TypeError ''data is null''), svc)
      | Inr (Some viewer) \<Rightarrow>
          (case viewer_homes viewer of
             None \<Rightarrow> (Inl (Error ''No homes found in your Tibber account''), svc)
           | Some [] \<Rightarrow> (Inl (Error ''No homes found in your Tibber account''), svc)
           | Some (firstHome # _) \<Rightarrow> cachePriceInfo now (home_priceInfo firstHome) svc))"

definition getCurrentPriceInfo ::
  "price_api \<Rightarrow> int \<Rightarrow> string option \<Rightarrow> tibber_service \<Rightarrow> (js_error + price_info) \<times> tibber_service" where
  "getCurrentPriceInfo api now homeId' svc =
     (let targetHomeId =
            (case homeId' of
               None \<Rightarrow> homeId (svc_config svc)
             | Some h \<Rightarrow> if h = [] then homeId (svc_config svc) else h)
      in if targetHomeId = [] then getPriceInfoFromFirstHome api now svc
         else
           (case makeGraphQLRequest api svc (GetPriceInfo targetHomeId) of
              Inl e \<Rightarrow> (Inl e, svc)
            | Inr None \<Rightarrow> (Inl (TypeError ''data is null''), svc)
            | Inr (Some viewer) \<Rightarrow>
                (case viewer_home viewer of
                   None \<Rightarrow> (Inl (TypeError ''viewer.home is null''), svc)
                 | Some home \<Rightarrow> cachePriceInfo now (home_priceInfo home) svc)))"

text \<open>
  \<^verbatim>\<open>refreshData\<close>: the whole body stands in one \<^verbatim>\<open>try\<close> whose \<^verbatim>\<open>catch\<close> returns
  \<^verbatim>\<open>false\<close>, so the result is a Boolean in every case.
\<close>

definition refreshData :: "price_api \<Rightarrow> int \<Rightarrow> tibber_service \<Rightarrow> bool \<times> tibber_service" where
  "refreshData api now svc =
     (if \<not> enabled (svc_config svc) then (False, svc)
      else if apiKey (svc_config svc) = [] \<or> apiKey (svc_config svc) = ''***'' then (False, svc)
      else
        (case getCurrentPriceInfo api now None svc of
           (Inl e, svc') \<Rightarrow> (False, svc')
         | (Inr info, svc') \<Rightarrow> (True, svc')))"

text \<open>The query a refresh sends: for the configured home, or for the first home.\<close>

definition refreshQuery :: "tibber_service \<Rightarrow> graphql_query" where
  "refreshQuery svc =
     (if homeId (svc_config svc) = [] then GetFirstHomePriceInfo
      else GetPriceInfo (homeId (svc_config svc)))"

subsection \<open>Updating the configuration\<close>

record country_settings =
  code :: string
  country_name :: string
  country_timezone :: string
  country_currency :: string

definition countryOf :: "string \<Rightarrow> string \<Rightarrow> string \<Rightarrow> string \<Rightarrow> country_settings" where
  "countryOf c n tz cur =
     \<lparr>code = c, country_name = n, country_timezone = tz, country_currency = cur\<rparr>"

text \<open>The table of \<^verbatim>\<open>getSupportedCountries\<close>, without the flag of each entry.\<close>

definition getSupportedCountries :: "country_settings list" where
  "getSupportedCountries =
     [countryOf ''NO'' ''Norway'' ''Europe/Oslo'' ''NOK'',
      countryOf ''SE'' ''Sweden'' ''Europe/Stockholm'' ''EUR'',
      countryOf ''DK'' ''Denmark'' ''Europe/Copenhagen'' ''DKK'',
      countryOf ''FI'' ''Finland'' ''Europe/Helsinki'' ''EUR'',
      countryOf ''DE'' ''Germany'' ''Europe/Berlin'' ''EUR'',
      countryOf ''AT'' ''Austria'' ''Europe/Vienna'' ''EUR'',
      countryOf ''CH'' ''Switzerland'' ''Europe/Zurich'' ''CHF'',
      countryOf ''NL'' ''Netherlands'' ''Europe/Amsterdam'' ''EUR'',
      countryOf ''BE'' ''Belgium'' ''Europe/Brussels'' ''EUR'',
      countryOf ''FR'' ''France'' ''Europe/Paris'' ''EUR'',
      countryOf ''LU'' ''Luxembourg'' ''Europe/Luxembourg'' ''EUR'',
      countryOf ''GB'' ''United Kingdom'' ''Europe/London'' ''GBP'',
      countryOf ''IE'' ''Ireland'' ''Europe/Dublin'' ''EUR'',
      countryOf ''ES'' ''Spain'' ''Europe/Madrid'' ''EUR'',
      countryOf ''IT'' ''Italy'' ''Europe/Rome'' ''EUR'',
      countryOf ''PT'' ''Portugal'' ''Europe/Lisbon'' ''EUR'',
      countryOf ''GR'' ''Greece'' ''Europe/Athens'' ''EUR'',
      countryOf ''PL'' ''Poland'' ''Europe/Warsaw'' ''PLN'',
      countryOf ''CZ'' ''Czech Republic'' ''Europe/Prague'' ''CZK'',
      countryOf ''HU'' ''Hungary'' ''Europe/Budapest'' ''HUF'',
      countryOf ''RO'' ''Romania'' ''Europe/Bucharest'' ''RON'',
      countryOf ''EE'' ''Estonia'' ''Europe/Tallinn'' ''EUR'',
      countryOf ''LV'' ''Latvia'' ''Europe/Riga'' ''EUR'',
      countryOf ''LT'' ''Lithuania'' ''Europe/Vilnius'' ''EUR'']"

text \<open>\<^verbatim>\<open>String.prototype.toUpperCase\<close> on the ASCII letters; other characters are kept.\<close>

definition upperChar :: "char \<Rightarrow> char" where
  "upperChar c =
     (case map_of (zip ''abcdefghijklmnopqrstuvwxyz'' ''ABCDEFGHIJKLMNOPQRSTUVWXYZ'') c of
        Some u \<Rightarrow> u
      | None \<Rightarrow> c)"

definition toUpperCase :: "string \<Rightarrow> string" where
  "toUpperCase s = map upperChar s"

definition getCountrySettings :: "string \<Rightarrow> country_settings option" where
  "getCountrySettings countryCode =
     (let countries = getSupportedCountries
      in if countryCode = [] then find (\<lambda>c. code c = ''DE'') countries
         else
           (let upperCode = toUpperCase countryCode
            in case find (\<lambda>c. code c = countryCode \<or> code c = upperCode) countries of
                 Some c \<Rightarrow> Some c
               | None \<Rightarrow> find (\<lambda>c. code c = ''DE'') countries))"

text \<open>
  The argument of \<^verbatim>\<open>updateConfig\<close>: an object that holds some of the fields of the
  configuration; a field it does not hold is \<open>None\<close>. (\<open>maxPriceThreshold\<close> may be supplied
  as \<^verbatim>\<open>null\<close>, which is \<open>Some None\<close>.)
\<close>

record config_update =
  u_enabled :: "bool option"
  u_apiKey :: "string option"
  u_homeId :: "string option"
  u_country :: "string option"
  u_timezone :: "string option"
  u_currency :: "string option"
  u_targetSoC :: "real option"
  u_minimumSoC :: "real option"
  u_maxPriceThreshold :: "real option option"
  u_usePriceLevels :: "bool option"
  u_allowedPriceLevels :: "string list option"

definition noUpdate :: config_update where
  "noUpdate =
     \<lparr>u_enabled = None, u_apiKey = None, u_homeId = None, u_country = None, u_timezone = None,
      u_currency = None, u_targetSoC = None, u_minimumSoC = None, u_maxPriceThreshold = None,
      u_usePriceLevels = None, u_allowedPriceLevels = None\<rparr>"

text \<open>The spread \<^verbatim>\<open>{ ...this.config, ...newConfig }\<close>.\<close>

definition spread :: "'a \<Rightarrow> 'a option \<Rightarrow> 'a" where
  "spread old new = (case new of None \<Rightarrow> old | Some v \<Rightarrow> v)"

definition mergeConfig :: "tibber_config \<Rightarrow> config_update \<Rightarrow> tibber_config" where
  "mergeConfig cfg newConfig =
     \<lparr>enabled = spread (enabled cfg) (u_enabled newConfig),
      apiKey = spread (apiKey cfg) (u_apiKey newConfig),
      homeId = spread (homeId cfg) (u_homeId newConfig),
      country = spread (country cfg) (u_country newConfig),
      timezone = spread (timezone cfg) (u_timezone newConfig),
      cfg_currency = spread (cfg_currency cfg) (u_currency newConfig),
      targetSoC = spread (targetSoC cfg) (u_targetSoC newConfig),
      minimumSoC = spread (minimumSoC cfg) (u_minimumSoC newConfig),
      maxPriceThreshold = spread (maxPriceThreshold cfg) (u_maxPriceThreshold newConfig),
      usePriceLevels = spread (usePriceLevels cfg) (u_usePriceLevels newConfig),
      allowedPriceLevels = spread (allowedPriceLevels cfg) (u_allowedPriceLevels newConfig)\<rparr>"

text \<open>A string is truthy when it is present and not empty.\<close>

definition truthy :: "string option \<Rightarrow> bool" where
  "truthy s = (case s of None \<Rightarrow> False | Some v \<Rightarrow> v \<noteq> [])"

text \<open>
  \<^verbatim>\<open>updateConfig\<close>: the masked or empty key is deleted from the update, the currency is
  filled in from the country, and the update is merged. The result is \<^verbatim>\<open>this.config\<close>,
  which is also what \<^verbatim>\<open>saveConfig\<close> writes (a failure to write is caught and logged).
\<close>

definition updateConfig :: "config_update \<Rightarrow> tibber_service \<Rightarrow> tibber_service" where
  "updateConfig newConfig svc =
     (let newConfig1 =
            (if u_apiKey newConfig = Some ''***'' \<or> u_apiKey newConfig = Some ''******''
             then newConfig\<lparr>u_apiKey := None\<rparr>
             else if u_apiKey newConfig = Some [] then newConfig\<lparr>u_apiKey := None\<rparr>
             else newConfig);
          newConfig2 =
            (case u_country newConfig1 of
               None \<Rightarrow> newConfig1
             | Some c \<Rightarrow>
                 if c \<noteq> [] \<and> \<not> truthy (u_currency newConfig1)
                 then
                   (case getCountrySettings c of
                      Some countryData \<Rightarrow>
                        newConfig1\<lparr>u_currency := Some (country_currency countryData)\<rparr>
                    | None \<Rightarrow> newConfig1)
                 else newConfig1)
      in svc\<lparr>svc_config := mergeConfig (svc_config svc) newConfig2\<rparr>)"

section \<open>Persisted configuration documents\<close>

text \<open>
  A file holds either a JSON document, which \<^verbatim>\<open>JSON.parse\<close> turns into the value it
  denotes, or a payload that \<^verbatim>\<open>JSON.parse\<close> rejects with a SyntaxError. A file system
  maps paths to files and says which paths can be written (\<^verbatim>\<open>writeFileSync\<close> throws on
  the others). Directories are not modelled.
\<close>

datatype 'c document = Json 'c | Unparsable string

record 'c filesystem =
  files :: "string \<rightharpoonup> 'c document"
  writable :: "string \<Rightarrow> bool"

definition existsSync :: "'c filesystem \<Rightarrow> string \<Rightarrow> bool" where
  "existsSync fs path = (files fs path \<noteq> None)"

definition readFileSync :: "'c filesystem \<Rightarrow> string \<Rightarrow> js_error + 'c document" where
  "readFileSync fs path =
     (case files fs path of None \<Rightarrow> Inl (Error ''ENOENT'') | Some content \<Rightarrow> Inr content)"

definition writeFileSync :: "'c filesystem \<Rightarrow> string \<Rightarrow> 'c document \<Rightarrow> js_error + 'c filesystem" where
  "writeFileSync fs path content =
     (if writable fs path then Inr (fs\<lparr>files := (files fs)(path \<mapsto> content)\<rparr>)
      else Inl (Error ''EACCES''))"

definition JSON_parse :: "'c document \<Rightarrow> js_error + 'c" where
  "JSON_parse content = (case content of Json c \<Rightarrow> Inr c | Unparsable s \<Rightarrow> Inl (SyntaxError s))"

text \<open>The decimal digits of \<^verbatim>\<open>Date.now()\<close>, as string concatenation prints them.\<close>

fun digits :: "nat \<Rightarrow> string" where
  "digits n =
     (if n < 10 then [''0123456789'' ! n]
      else digits (n div 10) @ [''0123456789'' ! (n mod 10)])"

declare digits.simps [simp del]

subsection \<open>Price configuration: loadConfig of services/tibberService.js\<close>

definition configFile :: string where
  "configFile = ''../data/tibber_config.json''"

definition saveConfigSync :: "tibber_config filesystem \<Rightarrow> tibber_config \<Rightarrow> js_error + tibber_config filesystem" where
  "saveConfigSync fs config = writeFileSync fs configFile (Json config)"

text \<open>
  \<^verbatim>\<open>loadConfig\<close>: the first component of \<open>tryLoad\<close> is the configuration the inner \<^verbatim>\<open>try\<close>
  returned, if it returned one; a failure to read, or to write the backup, is caught by
  the outer \<^verbatim>\<open>catch\<close>.
\<close>

definition tryLoad :: "nat \<Rightarrow> tibber_config filesystem \<Rightarrow> tibber_config option \<times> tibber_config filesystem" where
  "tryLoad now fs =
     (if existsSync fs configFile then
        (case readFileSync fs configFile of
           Inl e \<Rightarrow> (None, fs)
         | Inr fileContent \<Rightarrow>
             (case JSON_parse fileContent of
                Inr parsed \<Rightarrow> (Some parsed, fs)
              | Inl jsonError \<Rightarrow>
                  (let backupFile = configFile @ ''.corrupted.'' @ digits now
                   in case writeFileSync fs backupFile fileContent of
                        Inl e \<Rightarrow> (None, fs)
                      | Inr fs' \<Rightarrow> (None, fs'))))
      else (None, fs))"

definition loadConfig :: "nat \<Rightarrow> tibber_config filesystem \<Rightarrow> tibber_config \<times> tibber_config filesystem" where
  "loadConfig now fs =
     (case tryLoad now fs of
        (Some parsed, fs1) \<Rightarrow> (parsed, fs1)
      | (None, fs1) \<Rightarrow>
          (case saveConfigSync fs1 defaultTibberConfig of
             Inl saveError \<Rightarrow> (defaultTibberConfig, fs1)
           | Inr fs2 \<Rightarrow> (defaultTibberConfig, fs2)))"

subsection \<open>Warning configuration: getConfig and saveConfig of services/warningService.js\<close>

definition WARNINGS_CONFIG_FILE :: string where
  "WARNINGS_CONFIG_FILE = ''../data/warnings_config.json''"

text \<open>\<^verbatim>\<open>ensureConfigFile\<close> stands outside every \<^verbatim>\<open>try\<close>: a failure to write throws.\<close>

definition ensureConfigFile :: "warnings_config filesystem \<Rightarrow> js_error + warnings_config filesystem" where
  "ensureConfigFile fs =
     (if \<not> existsSync fs WARNINGS_CONFIG_FILE
      then writeFileSync fs WARNINGS_CONFIG_FILE (Json defaultConfig)
      else Inr fs)"

definition getConfig ::
  "warnings_config filesystem \<Rightarrow> js_error + (warnings_config \<times> warnings_config filesystem)" where
  "getConfig fs =
     (case ensureConfigFile fs of
        Inl e \<Rightarrow> Inl e
      | Inr fs1 \<Rightarrow>
          (case readFileSync fs1 WARNINGS_CONFIG_FILE of
             Inl e \<Rightarrow> Inr (defaultConfig, fs1)
           | Inr content \<Rightarrow>
               (case JSON_parse content of
                  Inl e \<Rightarrow> Inr (defaultConfig, fs1)
                | Inr config \<Rightarrow> Inr (config, fs1))))"

definition saveConfig ::
  "warnings_config filesystem \<Rightarrow> warnings_config \<Rightarrow> js_error + (bool \<times> warnings_config filesystem)" where
  "saveConfig fs config =
     (case ensureConfigFile fs of
        Inl e \<Rightarrow> Inl e
      | Inr fs1 \<Rightarrow>
          (case writeFileSync fs1 WARNINGS_CONFIG_FILE (Json config) of
             Inl e \<Rightarrow> Inr (False, fs1)
           | Inr fs2 \<Rightarrow> Inr (True, fs2)))"

text \<open>
  \<^verbatim>\<open>addWarningType\<close>, as one of the writers of the document: it reads the configuration,
  gives the rule an id if it has none (\<^verbatim>\<open>warning-\<close> and the time), appends it and saves.
  (\<^verbatim>\<open>warningType.enabled || false\<close> leaves a Boolean flag as it is.)
\<close>

definition addWarningType ::
  "warnings_config filesystem \<Rightarrow> nat \<Rightarrow> warning_type \<Rightarrow>
   js_error + (warning_type option \<times> warnings_config filesystem)" where
  "addWarningType fs now warningType =
     (case getConfig fs of
        Inl e \<Rightarrow> Inl e
      | Inr (config, fs1) \<Rightarrow>
          (let warningType1 =
                 (if wt_id warningType = [] then warningType\<lparr>wt_id := ''warning-'' @ digits now\<rparr>
                  else warningType)
           in case saveConfig fs1 (config\<lparr>warningTypes := warningTypes config @ [warningType1]\<rparr>) of
                Inl e \<Rightarrow> Inl e
              | Inr (ok, fs2) \<Rightarrow> Inr (if ok then Some warningType1 else None, fs2)))"

section \<open>NotificationDispatcher: services/telegramService.js\<close>

record notification_rule =
  nr_id :: string
  nr_type :: string
  nr_enabled :: bool
  nr_warningType :: "string option"
  nr_ruleId :: "string option"

record ai_charging_notifications =
  chargingStarted :: bool
  chargingStopped :: bool
  optimalPrice :: bool
  negativePrice :: bool

record telegram_config =
  tg_enabled :: bool
  botToken :: string
  chatIds :: "string list"
  notificationRules :: "notification_rule list"
  enhancedFeatures :: bool
  inverterTypeSupport :: bool
  autoNotifications :: bool
  aiChargingNotifications :: ai_charging_notifications

definition telegram_defaultConfig :: telegram_config where
  "telegram_defaultConfig =
     \<lparr>tg_enabled = False, botToken = [], chatIds = [], notificationRules = [],
      enhancedFeatures = True, inverterTypeSupport = True, autoNotifications = False,
      aiChargingNotifications =
        \<lparr>chargingStarted = False, chargingStopped = False, optimalPrice = False,
         negativePrice = False\<rparr>\<rparr>"

text \<open>
  The persisted document may hold only some of the fields; \<^verbatim>\<open>getConfig\<close> lays it over
  the defaults (\<^verbatim>\<open>{ ...defaultConfig, ...config }\<close>).
\<close>

record telegram_document =
  d_enabled :: "bool option"
  d_botToken :: "string option"
  d_chatIds :: "string list option"
  d_notificationRules :: "notification_rule list option"
  d_enhancedFeatures :: "bool option"
  d_inverterTypeSupport :: "bool option"
  d_autoNotifications :: "bool option"
  d_aiChargingNotifications :: "ai_charging_notifications option"

definition overDefaults :: "telegram_document \<Rightarrow> telegram_config" where
  "overDefaults d =
     \<lparr>tg_enabled = spread (tg_enabled telegram_defaultConfig) (d_enabled d),
      botToken = spread (botToken telegram_defaultConfig) (d_botToken d),
      chatIds = spread (chatIds telegram_defaultConfig) (d_chatIds d),
      notificationRules = spread (notificationRules telegram_defaultConfig) (d_notificationRules d),
      enhancedFeatures = spread (enhancedFeatures telegram_defaultConfig) (d_enhancedFeatures d),
      inverterTypeSupport =
        spread (inverterTypeSupport telegram_defaultConfig) (d_inverterTypeSupport d),
      autoNotifications = spread (autoNotifications telegram_defaultConfig) (d_autoNotifications d),
      aiChargingNotifications =
        spread (aiChargingNotifications telegram_defaultConfig) (d_aiChargingNotifications d)\<rparr>"

definition asDocument :: "telegram_config \<Rightarrow> telegram_document" where
  "asDocument c =
     \<lparr>d_enabled = Some (tg_enabled c), d_botToken = Some (botToken c),
      d_chatIds = Some (chatIds c), d_notificationRules = Some (notificationRules c),
      d_enhancedFeatures = Some (enhancedFeatures c),
      d_inverterTypeSupport = Some (inverterTypeSupport c),
      d_autoNotifications = Some (autoNotifications c),
      d_aiChargingNotifications = Some (aiChargingNotifications c)\<rparr>"

definition TELEGRAM_CONFIG_FILE :: string where
  "TELEGRAM_CONFIG_FILE = ''../data/telegram_config.json''"

definition telegram_ensureConfigFile ::
  "telegram_document filesystem \<Rightarrow> js_error + telegram_document filesystem" where
  "telegram_ensureConfigFile fs =
     (if \<not> existsSync fs TELEGRAM_CONFIG_FILE
      then writeFileSync fs TELEGRAM_CONFIG_FILE (Json (asDocument telegram_defaultConfig))
      else Inr fs)"

definition telegram_getConfig ::
  "telegram_document filesystem \<Rightarrow> js_error + (telegram_config \<times> telegram_document filesystem)" where
  "telegram_getConfig fs =
     (case telegram_ensureConfigFile fs of
        Inl e \<Rightarrow> Inl e
      | Inr fs1 \<Rightarrow>
          (case readFileSync fs1 TELEGRAM_CONFIG_FILE of
             Inl e \<Rightarrow> Inr (telegram_defaultConfig, fs1)
           | Inr content \<Rightarrow>
               (case JSON_parse content of
                  Inl e \<Rightarrow> Inr (telegram_defaultConfig, fs1)
                | Inr config \<Rightarrow> Inr (overDefaults config, fs1))))"

subsection \<open>Broadcast\<close>

text \<open>
  \<^verbatim>\<open>axios.post(url, {chat_id, text, parse_mode}, {timeout})\<close> for one chat: it resolves,
  or it rejects with an error (an HTTP error status, no connection, the time-out). The
  sink is an argument, from the bot token, the chat id and the text.
\<close>

type_synonym sink = "string \<Rightarrow> string \<Rightarrow> string \<Rightarrow> js_error + unit"

text \<open>
  The \<^verbatim>\<open>for\<close> loop of \<^verbatim>\<open>broadcastMessage\<close> with its \<^verbatim>\<open>try\<close>/\<^verbatim>\<open>catch\<close>: the count of
  successes, and the log of the chats tried, each with what the \<^verbatim>\<open>catch\<close> logged if the
  send threw.
\<close>

fun sendToChats ::
  "sink \<Rightarrow> string \<Rightarrow> string \<Rightarrow> string list \<Rightarrow> nat \<times> (string \<times> js_error option) list \<Rightarrow>
   nat \<times> (string \<times> js_error option) list" where
  "sendToChats post token message [] acc = acc"
| "sendToChats post token message (chatId # rest) (successCount, sent) =
     (case post token chatId message of
        Inr u \<Rightarrow> sendToChats post token message rest (successCount + 1, sent @ [(chatId, None)])
      | Inl error \<Rightarrow> sendToChats post token message rest (successCount, sent @ [(chatId, Some error)]))"

definition broadcastMessage ::
  "sink \<Rightarrow> telegram_config \<Rightarrow> string \<Rightarrow> bool \<times> (string \<times> js_error option) list" where
  "broadcastMessage post config message =
     (if \<not> tg_enabled config \<or> botToken config = [] \<or> length (chatIds config) = 0
      then (False, [])
      else
        (case sendToChats post (botToken config) message (chatIds config) (0, []) of
           (successCount, sent) \<Rightarrow> (successCount > 0, sent)))"

text \<open>What the log holds for one chat: the chat, and the error if the send threw.\<close>

definition sendOutcome :: "sink \<Rightarrow> string \<Rightarrow> string \<Rightarrow> string \<Rightarrow> string \<times> js_error option" where
  "sendOutcome post token message chatId =
     (chatId, case post token chatId message of Inl error \<Rightarrow> Some error | Inr u \<Rightarrow> None)"

section \<open>DecisionEngine\<close>

text \<open>
  Modelled from the spec: the charging decision engine. Its code is not among the
  sources (only the document that describes its commands is); the definitions of this
  section follow section 4.3 of the specification. The price signal is the
  \<open>isPriceGood\<close> of the price provider, on the cached current price (with the
  arithmetic \<open>ar\<close> it averages in).
\<close>

record snapshot =
  battery_soc :: real
  pv_power :: real
  load :: real
  grid_power :: real
  grid_voltage :: real

datatype decision = START_CHARGING | STOP_CHARGING

datatype charging_mode =
  Solar_first
  | Solar_only
  | Utility_first
  | Solar_Battery_Utility
  | Solar_and_utility_simultaneously
  | Solar_Utility_Battery

record charging_decision =
  decision :: decision
  mode :: charging_mode
  reason :: string

text \<open>
  Modelled from the spec: the priority order of section 4.3. The tolerance \<open>eps\<close> under
  which PV production counts as none (\<open>pv_power \<approx> 0\<close>) is left open by the specification
  and is an argument.
\<close>

definition decide :: "real \<Rightarrow> float_arith \<Rightarrow> tibber_service \<Rightarrow> int \<Rightarrow> snapshot \<Rightarrow> charging_decision" where
  "decide eps ar svc now s =
     (if battery_soc s \<ge> targetSoC (svc_config svc) \<or> grid_voltage s < 200 \<or> grid_voltage s > 250
      then \<lparr>decision = STOP_CHARGING, mode = Solar_first, reason = ''Safety override''\<rparr>
      else if pv_power s > load s * 2 \<and> battery_soc s < 90
      then \<lparr>decision = START_CHARGING, mode = Solar_only, reason = ''Strong solar surplus''\<rparr>
      else if \<bar>pv_power s\<bar> \<le> eps
      then
        (if isPriceGood ar svc now None
         then \<lparr>decision = START_CHARGING, mode = Utility_first, reason = ''No PV, price acceptable''\<rparr>
         else \<lparr>decision = STOP_CHARGING, mode = Solar_Battery_Utility,
               reason = ''No PV, price not acceptable''\<rparr>)
      else if isPriceGood ar svc now None
      then \<lparr>decision = START_CHARGING, mode = Solar_and_utility_simultaneously,
            reason = ''PV and acceptable price''\<rparr>
      else if battery_soc s < 50
      then \<lparr>decision = START_CHARGING, mode = Solar_Utility_Battery, reason = ''PV and low battery''\<rparr>
      else \<lparr>decision = STOP_CHARGING, mode = Solar_first, reason = ''Default''\<rparr>)"

text \<open>
  Modelled from the spec: the legacy vocabulary, \<^verbatim>\<open>grid_charge\<close> is \<^verbatim>\<open>Enabled\<close> unless the
  mode implies no grid use; the modes that name no utility source are taken as such.
\<close>

definition grid_charge :: "charging_mode \<Rightarrow> string" where
  "grid_charge m = (if m = Solar_first \<or> m = Solar_only then ''Disabled'' else ''Enabled'')"

section \<open>Example data\<close>

text \<open>
  The rule of the specification's scenario 5 (battery below 15 percent, one hour of
  cooldown), a second rule on PV production, and snapshots to evaluate them on.
\<close>

definition ex_rule :: warning_type where
  "ex_rule =
     \<lparr>wt_id = ''low-battery'', wt_name = ''Low battery'', wt_description = ''SoC below 15'',
      parameter = ''battery_soc'', condition = ''lt'', threshold = 15, wt_enabled = True,
      wt_priority = ''high'', cooldownMinutes = 60, timeCondition = None\<rparr>"

definition ex_rule_pv :: warning_type where
  "ex_rule_pv =
     \<lparr>wt_id = ''low-pv'', wt_name = ''Low PV'', wt_description = ''PV below 100 W'',
      parameter = ''pv_power'', condition = ''lt'', threshold = 100, wt_enabled = True,
      wt_priority = ''low'', cooldownMinutes = 60, timeCondition = None\<rparr>"

definition ex_state :: "real \<Rightarrow> system_state" where
  "ex_state soc = [''battery_soc'' \<mapsto> soc, ''pv_power'' \<mapsto> 0]"

definition ex_event :: "int \<Rightarrow> warning_instance" where
  "ex_event t = warningInstance ex_rule t (ex_state 10) 10"

definition ex_config :: warnings_config where
  "ex_config = defaultConfig\<lparr>warningTypes := [ex_rule]\<rparr>"

definition ex_config_cap1 :: warnings_config where
  "ex_config_cap1 = defaultConfig\<lparr>warningTypes := [ex_rule, ex_rule_pv], maxHistoryItems := 1\<rparr>"

definition ex_rule_daytime :: warning_type where
  "ex_rule_daytime = ex_rule\<lparr>timeCondition := Some ''daytime''\<rparr>"

definition ex_config_daytime :: warnings_config where
  "ex_config_daytime = defaultConfig\<lparr>warningTypes := [ex_rule_daytime]\<rparr>"

definition ex_point :: "int \<Rightarrow> real \<Rightarrow> string \<Rightarrow> price_point" where
  "ex_point t price lvl =
     \<lparr>total = price, energy = price, tax = 0, level = lvl, startsAt = t, currency = ''cent''\<rparr>"

definition ex_service :: "tibber_config \<Rightarrow> price_point list \<Rightarrow> tibber_service" where
  "ex_service cfg fc =
     \<lparr>svc_config = cfg, svc_cache = emptyCache\<lparr>forecast := fc\<rparr>, lastUpdate = None\<rparr>"

text \<open>One hour in milliseconds.\<close>

definition hour_ms :: int where
  "hour_ms = 3600000"

definition ex_tibber_config :: tibber_config where
  "ex_tibber_config = defaultTibberConfig\<lparr>enabled := True, apiKey := ''secret-token''\<rparr>"

definition ex_cached :: tibber_service where
  "ex_cached =
     \<lparr>svc_config = ex_tibber_config,
      svc_cache = emptyCache
        \<lparr>currentPrice := Some (ex_point 0 25 ''NORMAL''),
         forecast := [ex_point 0 25 ''NORMAL'', ex_point hour_ms 30 ''NORMAL'']\<rparr>,
      lastUpdate = Some 0\<rparr>"

definition ex_api_down :: price_api where
  "ex_api_down key query = RequestFailed (AxiosError ''timeout of 15000ms exceeded'')"

definition ex_api :: price_api where
  "ex_api key query =
     (if key = ''secret-token''
      then ResponseData (Some
        \<lparr>viewer_home = None,
         viewer_homes = Some
           [\<lparr>home_id = ''home-1'',
             home_priceInfo = Some
               \<lparr>api_current = Some (ex_point (2 * hour_ms) 0.2 ''CHEAP''),
                api_today = Some [ex_point (2 * hour_ms) 0.2 ''CHEAP'', ex_point (3 * hour_ms) 0.4 ''NORMAL''],
                api_tomorrow = None\<rparr>\<rparr>]\<rparr>)
      else ResponseErrors [''invalid token''])"

definition ex_telegram :: telegram_config where
  "ex_telegram =
     telegram_defaultConfig
       \<lparr>tg_enabled := True, botToken := ''bot-token'', chatIds := [''1001'', ''1002'', ''1003'']\<rparr>"

definition ex_sink :: sink where
  "ex_sink token chatId message =
     (if chatId = ''1002'' then Inl (AxiosError ''Request failed with status code 403'') else Inr ())"

definition ex_sink_down :: sink where
  "ex_sink_down token chatId message = Inl (AxiosError ''timeout of 10000ms exceeded'')"

text \<open>The three configuration files, each holding a payload cut off in the middle.\<close>

definition ex_payload :: string where
  "ex_payload = ''{ enabled: tru''"

definition ex_tibber_files :: "tibber_config filesystem" where
  "ex_tibber_files = \<lparr>files = [configFile \<mapsto> Unparsable ex_payload], writable = (\<lambda>path. True)\<rparr>"

definition ex_warning_files :: "warnings_config filesystem" where
  "ex_warning_files =
     \<lparr>files = [WARNINGS_CONFIG_FILE \<mapsto> Unparsable ex_payload], writable = (\<lambda>path. True)\<rparr>"

definition ex_telegram_files :: "telegram_document filesystem" where
  "ex_telegram_files =
     \<lparr>files = [TELEGRAM_CONFIG_FILE \<mapsto> Unparsable ex_payload], writable = (\<lambda>path. True)\<rparr>"

text \<open>A provider whose cached current price is very cheap, and snapshots of scenarios 1, 3 and 4.\<close>

definition ex_cheap :: tibber_service where
  "ex_cheap =
     \<lparr>svc_config = defaultTibberConfig,
      svc_cache = emptyCache\<lparr>currentPrice := Some (ex_point 0 5 ''VERY_CHEAP'')\<rparr>,
      lastUpdate = Some 0\<rparr>"

definition ex_snapshot :: "real \<Rightarrow> real \<Rightarrow> snapshot" where
  "ex_snapshot soc volts =
     \<lparr>battery_soc = soc, pv_power = 0, load = 500, grid_power = 500, grid_voltage = volts\<rparr>"

text \<open>
  Two arithmetics to evaluate with. \<open>exact_arith\<close> does not round: it is what the doubles
  do where every sum and quotient is representable, as on the small integers of the
  examples (the elapsed times of the examples are whole minutes). \<open>ex_double_arith\<close> gives, on the operands that occur when 0.1, 0.2 and 0.3
  are averaged, the sums and the quotient that IEEE-754 round-to-nearest gives (the
  doubles are written as the fractions they are).
\<close>

definition exact_arith :: float_arith where
  "exact_arith = \<lparr>fadd = (\<lambda>a b. a + b), fdiv = (\<lambda>a b. a / b)\<rparr>"

definition double_0_1 :: real where
  "double_0_1 = 3602879701896397 / 36028797018963968"

definition double_0_2 :: real where
  "double_0_2 = 3602879701896397 / 18014398509481984"

definition double_0_3 :: real where
  "double_0_3 = 5404319552844595 / 18014398509481984"

definition ex_double_arith :: float_arith where
  "ex_double_arith =
     \<lparr>fadd = (\<lambda>a b.
         if a = double_0_1 \<and> b = double_0_2 then 1351079888211149 / 4503599627370496
         else if a = 1351079888211149 / 4503599627370496 \<and> b = double_0_3
         then 1351079888211149 / 2251799813685248
         else a + b),
      fdiv = (\<lambda>a b.
         if a = 1351079888211149 / 2251799813685248 \<and> b = 3
         then 7205759403792795 / 36028797018963968
         else a / b)\<rparr>"

section \<open>Bounded warning history\<close>

lemma addWarningToHistory_take:
  "warningHistory (addWarningToHistory e config) =
     take (maxHistoryItems config) (e # warningHistory config)"
  by (simp add: addWarningToHistory_def Let_def)

lemma addWarningToHistory_max:
  "maxHistoryItems (addWarningToHistory e config) = maxHistoryItems config"
  by (simp add: addWarningToHistory_def Let_def)

lemma addWarningsToHistory_max:
  "maxHistoryItems (addWarningsToHistory es config) = maxHistoryItems config"
  unfolding addWarningsToHistory_def
  by (induction es arbitrary: config) (simp_all add: addWarningToHistory_max)

lemma take_Cons_take: "take n (e # take n xs) = take n (e # xs)"
  by (cases n) simp_all

lemma addWarningsToHistory_take:
  "es \<noteq> [] \<or> length (warningHistory config) \<le> maxHistoryItems config \<Longrightarrow>
   warningHistory (addWarningsToHistory es config) =
     take (maxHistoryItems config) (rev es @ warningHistory config)"
proof (induction es arbitrary: config)
  case Nil
  then show ?case by (simp add: addWarningsToHistory_def)
next
  case (Cons e es)
  let ?c = "addWarningToHistory e config"
  have len: "length (warningHistory ?c) \<le> maxHistoryItems ?c"
    by (simp add: addWarningToHistory_take addWarningToHistory_max)
  have "warningHistory (addWarningsToHistory es ?c) =
          take (maxHistoryItems ?c) (rev es @ warningHistory ?c)"
    using Cons.IH [of ?c] len by blast
  also have "\<dots> = take (maxHistoryItems config)
                     (rev es @ take (maxHistoryItems config) (e # warningHistory config))"
    by (simp add: addWarningToHistory_take addWarningToHistory_max)
  also have "\<dots> = take (maxHistoryItems config) (rev es @ e # warningHistory config)"
    by (simp add: take_add min_def)
  finally show ?case by (simp add: addWarningsToHistory_def)
qed

text \<open>
  C4. After a sequence of insertions \<open>es\<close> (oldest first) the history is the newest-first
  list of everything ever held, cut to \<open>maxHistoryItems\<close>: its length is within the cap,
  the events dropped are the oldest ones, and the newest event is the head (when the cap
  leaves room for one). The cap itself is not changed by insertions. For the empty
  sequence the bound is the one the document already satisfied.
\<close>

theorem history_bounded_newest_first:
  "es \<noteq> [] \<or> length (warningHistory config) \<le> maxHistoryItems config \<Longrightarrow>
   maxHistoryItems (addWarningsToHistory es config) = maxHistoryItems config \<and>
   length (warningHistory (addWarningsToHistory es config)) \<le> maxHistoryItems config \<and>
   warningHistory (addWarningsToHistory es config) =
     take (maxHistoryItems config) (rev es @ warningHistory config) \<and>
   (es \<noteq> [] \<and> 0 < maxHistoryItems config \<longrightarrow>
      hd (warningHistory (addWarningsToHistory es config)) = last es)"
proof -
  assume a: "es \<noteq> [] \<or> length (warningHistory config) \<le> maxHistoryItems config"
  have t: "warningHistory (addWarningsToHistory es config) =
             take (maxHistoryItems config) (rev es @ warningHistory config)"
    using addWarningsToHistory_take [OF a] .
  have h: "es \<noteq> [] \<and> 0 < maxHistoryItems config \<longrightarrow>
             hd (take (maxHistoryItems config) (rev es @ warningHistory config)) = last es"
    by (cases es rule: rev_cases; cases "maxHistoryItems config") simp_all
  show ?thesis
    using t h by (simp add: addWarningsToHistory_max)
qed

theorem history_bounded_newest_first_witness:
  "length (warningHistory (addWarningsToHistory [ex_event 1, ex_event 2, ex_event 3]
      (defaultConfig\<lparr>maxHistoryItems := 2\<rparr>))) \<le> 2 \<and>
   warningHistory (addWarningsToHistory [ex_event 1, ex_event 2, ex_event 3]
      (defaultConfig\<lparr>maxHistoryItems := 2\<rparr>)) = [ex_event 3, ex_event 2] \<and>
   hd (warningHistory (addWarningsToHistory [ex_event 1, ex_event 2, ex_event 3]
      (defaultConfig\<lparr>maxHistoryItems := 2\<rparr>))) = ex_event 3"
  using history_bounded_newest_first
    [of "[ex_event 1, ex_event 2, ex_event 3]" "defaultConfig\<lparr>maxHistoryItems := 2\<rparr>"]
  by (simp add: defaultConfig_def)

section \<open>Cooldown\<close>

lemma sort_key_head_least:
  assumes "sort_key f xs = y # ys" and "x \<in> set xs"
  shows "f y \<le> f x"
proof -
  have s: "sorted (map f (y # ys))"
    using sorted_sort_key [of f xs] assms(1) by simp
  have "x \<in> set (y # ys)"
    using assms set_sort [of f xs] by simp
  then show ?thesis using s by auto
qed

lemma recentWarning_None:
  "(recentWarning config i = None) = (\<forall>e\<in>set (warningHistory config). warningTypeId e \<noteq> i)"
proof -
  let ?xs = "filter (\<lambda>w. warningTypeId w = i) (warningHistory config)"
  have "(sort_key (\<lambda>w. - timestamp w) ?xs = []) = (?xs = [])"
    by (metis length_sort length_0_conv)
  then show ?thesis
    by (auto simp: recentWarning_def filter_empty_conv split: list.splits)
qed

lemma recentWarning_Some:
  assumes "recentWarning config i = Some r"
  shows "r \<in> set (warningHistory config) \<and> warningTypeId r = i \<and>
         (\<forall>e\<in>set (warningHistory config). warningTypeId e = i \<longrightarrow> timestamp e \<le> timestamp r)"
proof -
  let ?xs = "filter (\<lambda>w. warningTypeId w = i) (warningHistory config)"
  obtain ys where s: "sort_key (\<lambda>w. - timestamp w) ?xs = r # ys"
    using assms by (auto simp: recentWarning_def split: list.splits)
  have "r \<in> set (sort_key (\<lambda>w. - timestamp w) ?xs)" using s by simp
  then have m: "r \<in> set ?xs" by simp
  have "\<forall>e\<in>set ?xs. timestamp e \<le> timestamp r"
    using sort_key_head_least [OF s] by fastforce
  then show ?thesis using m by auto
qed

lemma cooldown_unresolved:
  "getWarningTypeById config i = None \<Longrightarrow> isWarningOnCooldown ar config now i"
  by (simp add: isWarningOnCooldown_def)

lemma cooldown_elapsed:
  assumes "getWarningTypeById config i = Some wt"
    and "\<forall>e\<in>set (warningHistory config). warningTypeId e = i \<longrightarrow>
           cooldownMinutes wt \<le> fdiv ar (real_of_int (now - timestamp e)) (1000 * 60)"
  shows "\<not> isWarningOnCooldown ar config now i"
proof (cases "recentWarning config i")
  case None
  then show ?thesis using assms(1) by (simp add: isWarningOnCooldown_def)
next
  case (Some r)
  then have "cooldownMinutes wt \<le> fdiv ar (real_of_int (now - timestamp r)) (1000 * 60)"
    using recentWarning_Some [OF Some] assms(2) by blast
  then show ?thesis using assms(1) Some by (simp add: isWarningOnCooldown_def Let_def)
qed

lemma cooldown_young:
  assumes "getWarningTypeById config i = Some wt"
    and "e \<in> set (warningHistory config)" and "warningTypeId e = i"
    and "fdiv ar (real_of_int (now - timestamp e)) (1000 * 60) < cooldownMinutes wt"
    and "monotone_fdiv ar"
  shows "isWarningOnCooldown ar config now i"
proof (cases "recentWarning config i")
  case None
  then show ?thesis using assms(2,3) by (simp add: recentWarning_None)
next
  case (Some r)
  then have "timestamp e \<le> timestamp r"
    using recentWarning_Some [OF Some] assms(2,3) by blast
  then have "real_of_int (now - timestamp r) \<le> real_of_int (now - timestamp e)"
    by simp
  then have "fdiv ar (real_of_int (now - timestamp r)) (1000 * 60) \<le>
             fdiv ar (real_of_int (now - timestamp e)) (1000 * 60)"
    using assms(5) unfolding monotone_fdiv_def by simp
  then show ?thesis using assms(1,4) Some by (simp add: isWarningOnCooldown_def Let_def)
qed

lemma checkWarning_cooldown:
  "isWarningOnCooldown ar config now (wt_id w) \<Longrightarrow>
   checkWarning ar now hour st w (trig, config) = (trig, config)"
  by (simp add: checkWarning_def)

lemma checkWarning_fires:
  "\<not> isWarningOnCooldown ar config now (wt_id w) \<Longrightarrow>
   (timeCondition w = Some ''daytime'' \<longrightarrow> isDaytime hour) \<Longrightarrow>
   st (parameter w) = Some v \<Longrightarrow>
   evaluateCondition (condition w) v (threshold w) \<Longrightarrow>
   checkWarning ar now hour st w (trig, config) =
     (trig @ [warningInstance w now st v], addWarningToHistory (warningInstance w now st v) config)"
  by (auto simp: checkWarning_def Let_def)

lemma checkWarning_cases:
  "checkWarning ar now hour st w (trig, config) = (trig, config) \<or>
   (\<not> isWarningOnCooldown ar config now (wt_id w) \<and>
    (\<exists>v. checkWarning ar now hour st w (trig, config) =
       (trig @ [warningInstance w now st v], addWarningToHistory (warningInstance w now st v) config)))"
  by (auto simp: checkWarning_def Let_def split: option.splits)

lemma getWarningTypeById_add:
  "getWarningTypeById (addWarningToHistory e config) i = getWarningTypeById config i"
  by (simp add: getWarningTypeById_def addWarningToHistory_def Let_def)

lemma fold_checkWarning_silent:
  assumes "getWarningTypeById config i = Some wt"
    and "e \<in> set (warningHistory config)" and "warningTypeId e = i"
    and "fdiv ar (real_of_int (now - timestamp e)) (1000 * 60) < cooldownMinutes wt"
    and "length (warningHistory config) + length ws \<le> maxHistoryItems config"
    and "\<forall>x\<in>set trig. warningTypeId x \<noteq> i"
    and "monotone_fdiv ar"
  shows "\<forall>x\<in>set (fst (foldl (\<lambda>acc w. checkWarning ar now hour st w acc) (trig, config) ws)).
           warningTypeId x \<noteq> i"
  using assms
proof (induction ws arbitrary: trig config)
  case Nil
  then show ?case by simp
next
  case (Cons w ws)
  have cd: "isWarningOnCooldown ar config now i"
    using cooldown_young [OF Cons.prems(1-4) Cons.prems(7)] .
  consider (same) "checkWarning ar now hour st w (trig, config) = (trig, config)"
    | (fired) v where "\<not> isWarningOnCooldown ar config now (wt_id w)"
        "checkWarning ar now hour st w (trig, config) =
          (trig @ [warningInstance w now st v], addWarningToHistory (warningInstance w now st v) config)"
    using checkWarning_cases [of ar now hour st w trig config] by blast
  then show ?case
  proof cases
    case same
    have "length (warningHistory config) + length ws \<le> maxHistoryItems config"
      using Cons.prems(5) by simp
    from Cons.IH [OF Cons.prems(1-4) this Cons.prems(6,7)] same show ?thesis by simp
  next
    case fired
    let ?inst = "warningInstance w now st v"
    let ?c = "addWarningToHistory ?inst config"
    have ne: "wt_id w \<noteq> i" using fired(1) cd by auto
    have h: "warningHistory ?c = ?inst # warningHistory config"
      using Cons.prems(5) by (simp add: addWarningToHistory_def Let_def)
    have 1: "getWarningTypeById ?c i = Some wt"
      using Cons.prems(1) by (simp add: getWarningTypeById_add)
    have 2: "e \<in> set (warningHistory ?c)" using h Cons.prems(2) by simp
    have 5: "length (warningHistory ?c) + length ws \<le> maxHistoryItems ?c"
      using h Cons.prems(5) by (simp add: addWarningToHistory_max)
    have 6: "\<forall>x\<in>set (trig @ [?inst]). warningTypeId x \<noteq> i"
      using Cons.prems(6) ne by (simp add: warningInstance_def)
    from Cons.IH [OF 1 2 Cons.prems(3,4) 5 6 Cons.prems(7)] fired(2) show ?thesis by simp
  qed
qed

lemma checkWarnings_silent:
  assumes "getWarningTypeById config i = Some wt"
    and "e \<in> set (warningHistory config)" and "warningTypeId e = i"
    and "fdiv ar (real_of_int (now - timestamp e)) (1000 * 60) < cooldownMinutes wt"
    and "length (warningHistory config) + length (filter wt_enabled (warningTypes config))
           \<le> maxHistoryItems config"
    and "monotone_fdiv ar"
  shows "\<forall>x\<in>set (fst (checkWarnings ar now hour st config)). warningTypeId x \<noteq> i"
  using fold_checkWarning_silent [OF assms(1-4), of "filter wt_enabled (warningTypes config)" "[]" hour st]
    assms(5,6)
  by (simp add: checkWarnings_def Let_def)

lemma warningTypes_add:
  "warningTypes (addWarningToHistory e config) = warningTypes config"
  by (simp add: addWarningToHistory_def Let_def)

lemma fired_on_cooldown:
  assumes "\<not> isWarningOnCooldown ar config now (wt_id w)"
    and "timeCondition w = Some ''daytime'' \<longrightarrow> isDaytime hour"
    and "st (parameter w) = Some v"
    and "evaluateCondition (condition w) v (threshold w)"
    and "0 < maxHistoryItems config"
    and "getWarningTypeById config (wt_id w) = Some wt"
    and "fdiv ar (real_of_int (now' - now)) (1000 * 60) < cooldownMinutes wt"
    and "monotone_fdiv ar"
  shows "isWarningOnCooldown ar (snd (checkWarning ar now hour st w (trig, config))) now' (wt_id w)"
proof -
  let ?inst = "warningInstance w now st v"
  let ?c = "addWarningToHistory ?inst config"
  have r: "checkWarning ar now hour st w (trig, config) = (trig @ [?inst], ?c)"
    using checkWarning_fires [of ar config now w hour st v trig] assms(1-4) by blast
  have h: "?inst \<in> set (warningHistory ?c)"
    using assms(5) by (cases "maxHistoryItems config") (simp_all add: addWarningToHistory_take)
  have g: "getWarningTypeById ?c (wt_id w) = Some wt"
    using assms(6) by (simp add: getWarningTypeById_add)
  have i: "warningTypeId ?inst = wt_id w" "timestamp ?inst = now"
    by (simp_all add: warningInstance_def)
  have "isWarningOnCooldown ar ?c now' (wt_id w)"
    using cooldown_young [OF g h i(1)] assms(7,8) i(2) by simp
  then show ?thesis by (simp add: r)
qed

lemma fold_checkWarning_records:
  assumes "length (warningHistory config) + length ws \<le> maxHistoryItems config"
    and "set trig \<subseteq> set (warningHistory config)"
    and "\<forall>x\<in>set trig. timestamp x = now"
  shows "set (fst (foldl (\<lambda>acc w. checkWarning ar now hour st w acc) (trig, config) ws))
           \<subseteq> set (warningHistory (snd (foldl (\<lambda>acc w. checkWarning ar now hour st w acc) (trig, config) ws))) \<and>
         (\<forall>x\<in>set (fst (foldl (\<lambda>acc w. checkWarning ar now hour st w acc) (trig, config) ws)).
            timestamp x = now) \<and>
         warningTypes (snd (foldl (\<lambda>acc w. checkWarning ar now hour st w acc) (trig, config) ws)) =
           warningTypes config \<and>
         maxHistoryItems (snd (foldl (\<lambda>acc w. checkWarning ar now hour st w acc) (trig, config) ws)) =
           maxHistoryItems config"
  using assms
proof (induction ws arbitrary: trig config)
  case Nil
  then show ?case by simp
next
  case (Cons w ws)
  consider (same) "checkWarning ar now hour st w (trig, config) = (trig, config)"
    | (fired) v where
        "checkWarning ar now hour st w (trig, config) =
          (trig @ [warningInstance w now st v], addWarningToHistory (warningInstance w now st v) config)"
    using checkWarning_cases [of ar now hour st w trig config] by blast
  then show ?case
  proof cases
    case same
    have "length (warningHistory config) + length ws \<le> maxHistoryItems config"
      using Cons.prems(1) by simp
    from Cons.IH [OF this Cons.prems(2,3)] same show ?thesis by simp
  next
    case fired
    let ?inst = "warningInstance w now st v"
    let ?c = "addWarningToHistory ?inst config"
    have h: "warningHistory ?c = ?inst # warningHistory config"
      using Cons.prems(1) by (simp add: addWarningToHistory_def Let_def)
    have 1: "length (warningHistory ?c) + length ws \<le> maxHistoryItems ?c"
      using h Cons.prems(1) by (simp add: addWarningToHistory_max)
    have 2: "set (trig @ [?inst]) \<subseteq> set (warningHistory ?c)"
      using h Cons.prems(2) by auto
    have 3: "\<forall>x\<in>set (trig @ [?inst]). timestamp x = now"
      using Cons.prems(3) by (simp add: warningInstance_def)
    from Cons.IH [OF 1 2 3] fired show ?thesis
      by (simp add: addWarningToHistory_max warningTypes_add)
  qed
qed

lemma checkWarnings_records:
  assumes "length (warningHistory config) + length (filter wt_enabled (warningTypes config))
             \<le> maxHistoryItems config"
  shows "set (fst (checkWarnings ar now hour st config))
           \<subseteq> set (warningHistory (snd (checkWarnings ar now hour st config))) \<and>
         (\<forall>x\<in>set (fst (checkWarnings ar now hour st config)). timestamp x = now) \<and>
         warningTypes (snd (checkWarnings ar now hour st config)) = warningTypes config \<and>
         maxHistoryItems (snd (checkWarnings ar now hour st config)) = maxHistoryItems config"
  using fold_checkWarning_records
    [where config = config and ws = "filter wt_enabled (warningTypes config)" and trig = "[]"
       and ar = ar and now = now and hour = hour and st = st] assms
  by (simp add: checkWarnings_def Let_def)

lemma fired_then_silent:
  assumes "getWarningTypeById config i = Some wt"
    and "x \<in> set (fst (checkWarnings ar now hour st config))" and "warningTypeId x = i"
    and "length (warningHistory config) + length (filter wt_enabled (warningTypes config))
           \<le> maxHistoryItems config"
    and "fdiv ar (real_of_int (now' - now)) (1000 * 60) < cooldownMinutes wt"
    and "monotone_fdiv ar"
  shows "x \<in> set (warningHistory (snd (checkWarnings ar now hour st config)))"
    and "timestamp x = now"
    and "isWarningOnCooldown ar (snd (checkWarnings ar now hour st config)) now' i"
    and "length (warningHistory (snd (checkWarnings ar now hour st config))) +
           length (filter wt_enabled (warningTypes config)) \<le> maxHistoryItems config \<Longrightarrow>
         \<forall>y\<in>set (fst (checkWarnings ar now' hour' st' (snd (checkWarnings ar now hour st config)))).
           warningTypeId y \<noteq> i"
proof -
  let ?c = "snd (checkWarnings ar now hour st config)"
  note r = checkWarnings_records [OF assms(4), of ar now hour st]
  show x: "x \<in> set (warningHistory ?c)" using r assms(2) by blast
  show t: "timestamp x = now" using r assms(2) by blast
  have g: "getWarningTypeById ?c i = Some wt"
    using assms(1) r by (simp add: getWarningTypeById_def)
  have y: "fdiv ar (real_of_int (now' - timestamp x)) (1000 * 60) < cooldownMinutes wt"
    using assms(5) t by simp
  show "isWarningOnCooldown ar ?c now' i"
    using cooldown_young [OF g x assms(3) y assms(6)] .
  assume "length (warningHistory ?c) + length (filter wt_enabled (warningTypes config))
            \<le> maxHistoryItems config"
  then have "length (warningHistory ?c) + length (filter wt_enabled (warningTypes ?c))
            \<le> maxHistoryItems ?c"
    using r by simp
  then show "\<forall>y\<in>set (fst (checkWarnings ar now' hour' st' ?c)). warningTypeId y \<noteq> i"
    using checkWarnings_silent [OF g x assms(3) y _ assms(6)] by blast
qed

text \<open>
  C3 (amended). The cooldown of a rule is read off the bounded history, which is the only
  record of its last trigger. The age of an event is the quotient the engine computes,
  \<open>fdiv ar (now - timestamp) 60000\<close>; where the ages of two events are compared, the
  division is taken to keep the order (\<open>monotone_fdiv\<close>).
  \<^item> An id that resolves to no configured warning type is on cooldown, and a rule checked
    under that id produces nothing.
  \<^item> A resolved rule is not on cooldown when every event of its id in the history is at
    least \<open>cooldownMinutes\<close> old; in particular when the history holds no event of it.
  \<^item> While the history holds an event of the rule that is younger than \<open>cooldownMinutes\<close>,
    the rule is on cooldown and checking it produces nothing; a whole evaluation produces
    no event of that id when the history has room for one event per enabled rule (so that
    nothing is evicted while the rules are checked).
  \<^item> A rule that is not on cooldown, whose time condition admits the hour and whose
    parameter is present, fires when the comparison holds: its event is appended to the
    result and inserted into the history of the document that is written.
  \<^item> A firing records the trigger: with a cap above 0, the rule that fired at \<open>now\<close> is on
    cooldown, in the document written, at every \<open>now'\<close> less than \<open>cooldownMinutes\<close> after
    \<open>now\<close>.
  \<^item> For whole evaluations: when an evaluation at \<open>now\<close> produces an event of a rule and
    the history had room for one event per enabled rule, the event is in the history
    written, it carries the time \<open>now\<close>, the rule is on cooldown at every \<open>now'\<close> less than
    \<open>cooldownMinutes\<close> after \<open>now\<close>, and an evaluation of the written document at such a
    \<open>now'\<close> produces no event of the rule (again with room for one event per enabled
    rule).
\<close>

theorem cooldown_from_history:
  "(getWarningTypeById config i = None \<longrightarrow>
      isWarningOnCooldown ar config now i \<and>
      (wt_id w = i \<longrightarrow> checkWarning ar now hour st w (trig, config) = (trig, config))) \<and>
   (getWarningTypeById config i = Some wt \<and>
    (\<forall>e\<in>set (warningHistory config). warningTypeId e = i \<longrightarrow>
        cooldownMinutes wt \<le> fdiv ar (real_of_int (now - timestamp e)) (1000 * 60)) \<longrightarrow>
      \<not> isWarningOnCooldown ar config now i) \<and>
   (monotone_fdiv ar \<and> getWarningTypeById config i = Some wt \<and>
    e \<in> set (warningHistory config) \<and> warningTypeId e = i \<and>
    fdiv ar (real_of_int (now - timestamp e)) (1000 * 60) < cooldownMinutes wt \<longrightarrow>
      isWarningOnCooldown ar config now i \<and>
      (wt_id w = i \<longrightarrow> checkWarning ar now hour st w (trig, config) = (trig, config)) \<and>
      (length (warningHistory config) + length (filter wt_enabled (warningTypes config))
         \<le> maxHistoryItems config \<longrightarrow>
       (\<forall>x\<in>set (fst (checkWarnings ar now hour st config)). warningTypeId x \<noteq> i))) \<and>
   (\<not> isWarningOnCooldown ar config now (wt_id w) \<and>
    (timeCondition w = Some ''daytime'' \<longrightarrow> isDaytime hour) \<and>
    st (parameter w) = Some v \<and>
    evaluateCondition (condition w) v (threshold w) \<longrightarrow>
      checkWarning ar now hour st w (trig, config) =
        (trig @ [warningInstance w now st v],
         addWarningToHistory (warningInstance w now st v) config) \<and>
      warningTypeId (warningInstance w now st v) = wt_id w \<and>
      timestamp (warningInstance w now st v) = now \<and>
      (0 < maxHistoryItems config \<longrightarrow>
         hd (warningHistory (snd (checkWarning ar now hour st w (trig, config)))) =
           warningInstance w now st v) \<and>
      (monotone_fdiv ar \<and> 0 < maxHistoryItems config \<and>
       getWarningTypeById config (wt_id w) = Some wt \<and>
       fdiv ar (real_of_int (now' - now)) (1000 * 60) < cooldownMinutes wt \<longrightarrow>
         isWarningOnCooldown ar (snd (checkWarning ar now hour st w (trig, config))) now' (wt_id w))) \<and>
   (monotone_fdiv ar \<and> getWarningTypeById config i = Some wt \<and>
    x \<in> set (fst (checkWarnings ar now hour st config)) \<and> warningTypeId x = i \<and>
    length (warningHistory config) + length (filter wt_enabled (warningTypes config))
      \<le> maxHistoryItems config \<and>
    fdiv ar (real_of_int (now' - now)) (1000 * 60) < cooldownMinutes wt \<longrightarrow>
      x \<in> set (warningHistory (snd (checkWarnings ar now hour st config))) \<and>
      timestamp x = now \<and>
      isWarningOnCooldown ar (snd (checkWarnings ar now hour st config)) now' i \<and>
      (length (warningHistory (snd (checkWarnings ar now hour st config))) +
         length (filter wt_enabled (warningTypes config)) \<le> maxHistoryItems config \<longrightarrow>
       (\<forall>y\<in>set (fst (checkWarnings ar now' hour' st'
                        (snd (checkWarnings ar now hour st config)))). warningTypeId y \<noteq> i)))"
proof -
  have 1: "getWarningTypeById config i = None \<longrightarrow>
      isWarningOnCooldown ar config now i \<and>
      (wt_id w = i \<longrightarrow> checkWarning ar now hour st w (trig, config) = (trig, config))"
    using cooldown_unresolved checkWarning_cooldown by blast
  have 2: "getWarningTypeById config i = Some wt \<and>
    (\<forall>e\<in>set (warningHistory config). warningTypeId e = i \<longrightarrow>
        cooldownMinutes wt \<le> fdiv ar (real_of_int (now - timestamp e)) (1000 * 60)) \<longrightarrow>
      \<not> isWarningOnCooldown ar config now i"
    using cooldown_elapsed by blast
  have 3: "monotone_fdiv ar \<and> getWarningTypeById config i = Some wt \<and>
    e \<in> set (warningHistory config) \<and> warningTypeId e = i \<and>
    fdiv ar (real_of_int (now - timestamp e)) (1000 * 60) < cooldownMinutes wt \<longrightarrow>
      isWarningOnCooldown ar config now i \<and>
      (wt_id w = i \<longrightarrow> checkWarning ar now hour st w (trig, config) = (trig, config)) \<and>
      (length (warningHistory config) + length (filter wt_enabled (warningTypes config))
         \<le> maxHistoryItems config \<longrightarrow>
       (\<forall>x\<in>set (fst (checkWarnings ar now hour st config)). warningTypeId x \<noteq> i))"
  proof (intro impI)
    assume a: "monotone_fdiv ar \<and> getWarningTypeById config i = Some wt \<and>
      e \<in> set (warningHistory config) \<and> warningTypeId e = i \<and>
      fdiv ar (real_of_int (now - timestamp e)) (1000 * 60) < cooldownMinutes wt"
    then have c: "isWarningOnCooldown ar config now i"
      using cooldown_young by blast
    have s: "length (warningHistory config) + length (filter wt_enabled (warningTypes config))
         \<le> maxHistoryItems config \<longrightarrow>
       (\<forall>x\<in>set (fst (checkWarnings ar now hour st config)). warningTypeId x \<noteq> i)"
      using a checkWarnings_silent by blast
    show "isWarningOnCooldown ar config now i \<and>
      (wt_id w = i \<longrightarrow> checkWarning ar now hour st w (trig, config) = (trig, config)) \<and>
      (length (warningHistory config) + length (filter wt_enabled (warningTypes config))
         \<le> maxHistoryItems config \<longrightarrow>
       (\<forall>x\<in>set (fst (checkWarnings ar now hour st config)). warningTypeId x \<noteq> i))"
      using c s checkWarning_cooldown by blast
  qed
  have 4: "\<not> isWarningOnCooldown ar config now (wt_id w) \<and>
    (timeCondition w = Some ''daytime'' \<longrightarrow> isDaytime hour) \<and>
    st (parameter w) = Some v \<and>
    evaluateCondition (condition w) v (threshold w) \<longrightarrow>
      checkWarning ar now hour st w (trig, config) =
        (trig @ [warningInstance w now st v],
         addWarningToHistory (warningInstance w now st v) config) \<and>
      warningTypeId (warningInstance w now st v) = wt_id w \<and>
      timestamp (warningInstance w now st v) = now \<and>
      (0 < maxHistoryItems config \<longrightarrow>
         hd (warningHistory (snd (checkWarning ar now hour st w (trig, config)))) =
           warningInstance w now st v) \<and>
      (monotone_fdiv ar \<and> 0 < maxHistoryItems config \<and>
       getWarningTypeById config (wt_id w) = Some wt \<and>
       fdiv ar (real_of_int (now' - now)) (1000 * 60) < cooldownMinutes wt \<longrightarrow>
         isWarningOnCooldown ar (snd (checkWarning ar now hour st w (trig, config))) now' (wt_id w))"
  proof (intro impI)
    assume a: "\<not> isWarningOnCooldown ar config now (wt_id w) \<and>
      (timeCondition w = Some ''daytime'' \<longrightarrow> isDaytime hour) \<and>
      st (parameter w) = Some v \<and>
      evaluateCondition (condition w) v (threshold w)"
    have r: "checkWarning ar now hour st w (trig, config) =
        (trig @ [warningInstance w now st v],
         addWarningToHistory (warningInstance w now st v) config)"
      using a checkWarning_fires [of ar config now w hour st v trig] by blast
    have i: "warningTypeId (warningInstance w now st v) = wt_id w"
      "timestamp (warningInstance w now st v) = now"
      by (simp_all add: warningInstance_def)
    have h: "0 < maxHistoryItems config \<longrightarrow>
         hd (warningHistory (snd (checkWarning ar now hour st w (trig, config)))) =
           warningInstance w now st v"
      unfolding r by (cases "maxHistoryItems config") (simp_all add: addWarningToHistory_take)
    have c: "monotone_fdiv ar \<and> 0 < maxHistoryItems config \<and>
       getWarningTypeById config (wt_id w) = Some wt \<and>
       fdiv ar (real_of_int (now' - now)) (1000 * 60) < cooldownMinutes wt \<longrightarrow>
         isWarningOnCooldown ar (snd (checkWarning ar now hour st w (trig, config))) now' (wt_id w)"
      using a fired_on_cooldown [of ar config now w hour st v wt now' trig] by blast
    show "checkWarning ar now hour st w (trig, config) =
        (trig @ [warningInstance w now st v],
         addWarningToHistory (warningInstance w now st v) config) \<and>
      warningTypeId (warningInstance w now st v) = wt_id w \<and>
      timestamp (warningInstance w now st v) = now \<and>
      (0 < maxHistoryItems config \<longrightarrow>
         hd (warningHistory (snd (checkWarning ar now hour st w (trig, config)))) =
           warningInstance w now st v) \<and>
      (monotone_fdiv ar \<and> 0 < maxHistoryItems config \<and>
       getWarningTypeById config (wt_id w) = Some wt \<and>
       fdiv ar (real_of_int (now' - now)) (1000 * 60) < cooldownMinutes wt \<longrightarrow>
         isWarningOnCooldown ar (snd (checkWarning ar now hour st w (trig, config))) now' (wt_id w))"
      using r i h c by blast
  qed
  have 5: "monotone_fdiv ar \<and> getWarningTypeById config i = Some wt \<and>
    x \<in> set (fst (checkWarnings ar now hour st config)) \<and> warningTypeId x = i \<and>
    length (warningHistory config) + length (filter wt_enabled (warningTypes config))
      \<le> maxHistoryItems config \<and>
    fdiv ar (real_of_int (now' - now)) (1000 * 60) < cooldownMinutes wt \<longrightarrow>
      x \<in> set (warningHistory (snd (checkWarnings ar now hour st config))) \<and>
      timestamp x = now \<and>
      isWarningOnCooldown ar (snd (checkWarnings ar now hour st config)) now' i \<and>
      (length (warningHistory (snd (checkWarnings ar now hour st config))) +
         length (filter wt_enabled (warningTypes config)) \<le> maxHistoryItems config \<longrightarrow>
       (\<forall>y\<in>set (fst (checkWarnings ar now' hour' st'
                        (snd (checkWarnings ar now hour st config)))). warningTypeId y \<noteq> i))"
  proof (intro impI)
    assume a: "monotone_fdiv ar \<and> getWarningTypeById config i = Some wt \<and>
      x \<in> set (fst (checkWarnings ar now hour st config)) \<and> warningTypeId x = i \<and>
      length (warningHistory config) + length (filter wt_enabled (warningTypes config))
        \<le> maxHistoryItems config \<and>
      fdiv ar (real_of_int (now' - now)) (1000 * 60) < cooldownMinutes wt"
    then have g: "getWarningTypeById config i = Some wt"
      and m: "x \<in> set (fst (checkWarnings ar now hour st config))"
      and t: "warningTypeId x = i"
      and r: "length (warningHistory config) + length (filter wt_enabled (warningTypes config))
        \<le> maxHistoryItems config"
      and y: "fdiv ar (real_of_int (now' - now)) (1000 * 60) < cooldownMinutes wt"
      and mono: "monotone_fdiv ar"
      by blast+
    note f = fired_then_silent [OF g m t r y mono]
    show "x \<in> set (warningHistory (snd (checkWarnings ar now hour st config))) \<and>
      timestamp x = now \<and>
      isWarningOnCooldown ar (snd (checkWarnings ar now hour st config)) now' i \<and>
      (length (warningHistory (snd (checkWarnings ar now hour st config))) +
         length (filter wt_enabled (warningTypes config)) \<le> maxHistoryItems config \<longrightarrow>
       (\<forall>y\<in>set (fst (checkWarnings ar now' hour' st'
                        (snd (checkWarnings ar now hour st config)))). warningTypeId y \<noteq> i))"
      using f(1) f(2) f(3) f(4) [of hour' st'] by blast
  qed
  show ?thesis
    by (intro conjI 1 2 3 4 5)
qed

lemma exact_arith_simps:
  "fadd exact_arith a b = a + b" "fdiv exact_arith a b = a / b"
  by (simp_all add: exact_arith_def)

lemma exact_arith_monotone: "monotone_fdiv exact_arith"
  by (simp add: monotone_fdiv_def exact_arith_def divide_right_mono)

lemma ex_fired:
  "checkWarnings exact_arith 0 12 (ex_state 10) ex_config =
     ([ex_event 0], ex_config\<lparr>warningHistory := [ex_event 0]\<rparr>)"
  by (simp add: checkWarnings_def checkWarning_def isWarningOnCooldown_def getWarningTypeById_def
      recentWarning_def evaluateCondition_def addWarningToHistory_def ex_event_def
      ex_config_def ex_rule_def ex_state_def defaultConfig_def Let_def exact_arith_def)

theorem cooldown_from_history_witness:
  "fst (checkWarnings exact_arith 0 12 (ex_state 10) ex_config) = [ex_event 0] \<and>
   warningHistory (snd (checkWarnings exact_arith 0 12 (ex_state 10) ex_config)) = [ex_event 0] \<and>
   timestamp (ex_event 0) = 0 \<and>
   isWarningOnCooldown exact_arith (snd (checkWarning exact_arith 0 12 (ex_state 10) ex_rule ([], ex_config)))
     (10 * 60000) ''low-battery'' \<and>
   isWarningOnCooldown exact_arith (snd (checkWarnings exact_arith 0 12 (ex_state 10) ex_config)) (10 * 60000) ''low-battery'' \<and>
   fst (checkWarnings exact_arith (10 * 60000) 12 (ex_state 8) (snd (checkWarnings exact_arith 0 12 (ex_state 10) ex_config))) = [] \<and>
   \<not> isWarningOnCooldown exact_arith (snd (checkWarnings exact_arith 0 12 (ex_state 10) ex_config)) (61 * 60000) ''low-battery'' \<and>
   checkWarning exact_arith (61 * 60000) 12 (ex_state 9) ex_rule
         ([], snd (checkWarnings exact_arith 0 12 (ex_state 10) ex_config)) =
     ([warningInstance ex_rule (61 * 60000) (ex_state 9) 9],
      addWarningToHistory (warningInstance ex_rule (61 * 60000) (ex_state 9) 9)
        (snd (checkWarnings exact_arith 0 12 (ex_state 10) ex_config))) \<and>
   \<not> isWarningOnCooldown exact_arith ex_config 0 ''low-battery'' \<and>
   isWarningOnCooldown exact_arith ex_config 0 ''unknown-rule''"
proof -
  let ?c = "ex_config\<lparr>warningHistory := [ex_event 0]\<rparr>"
  have f: "fst (checkWarnings exact_arith 0 12 (ex_state 10) ex_config) = [ex_event 0]"
    "snd (checkWarnings exact_arith 0 12 (ex_state 10) ex_config) = ?c"
    by (simp_all add: ex_fired)
  have g: "getWarningTypeById ?c ''low-battery'' = Some ex_rule"
    by (simp add: getWarningTypeById_def ex_config_def ex_rule_def defaultConfig_def)
  have g0: "getWarningTypeById ex_config ''low-battery'' = Some ex_rule"
    by (simp add: getWarningTypeById_def ex_config_def ex_rule_def defaultConfig_def)
  have gu: "getWarningTypeById ex_config ''unknown-rule'' = None"
    by (simp add: getWarningTypeById_def ex_config_def ex_rule_def defaultConfig_def)
  have ev: "warningTypeId (ex_event 0) = ''low-battery''" "timestamp (ex_event 0) = 0"
    "cooldownMinutes ex_rule = 60" "wt_id ex_rule = ''low-battery''"
    by (simp_all add: ex_event_def warningInstance_def ex_rule_def)
  have room0: "length (warningHistory ex_config) + length (filter wt_enabled (warningTypes ex_config))
                \<le> maxHistoryItems ex_config"
    "0 < maxHistoryItems ex_config"
    by (simp_all add: ex_config_def defaultConfig_def ex_rule_def)
  have room: "length (warningHistory ?c) + length (filter wt_enabled (warningTypes ?c))
                \<le> maxHistoryItems ?c"
    "length (warningHistory ?c) + length (filter wt_enabled (warningTypes ex_config))
                \<le> maxHistoryItems ex_config"
    by (simp_all add: ex_config_def defaultConfig_def ex_rule_def)
  have only: "set (fst (checkWarnings exact_arith (10 * 60000) 12 (ex_state 8) ?c)) \<subseteq>
                {x. warningTypeId x = ''low-battery''}"
    by (simp add: checkWarnings_def checkWarning_def ex_config_def defaultConfig_def
        warningInstance_def ex_rule_def Let_def split: option.splits)
  have holds: "st10 = ex_state 10 \<Longrightarrow> st10 (parameter ex_rule) = Some 10 \<and>
      evaluateCondition (condition ex_rule) 10 (threshold ex_rule) \<and>
      timeCondition ex_rule = None" for st10
    by (simp add: ex_rule_def ex_state_def evaluateCondition_def)
  have holds9: "ex_state 9 (parameter ex_rule) = Some 9 \<and>
      evaluateCondition (condition ex_rule) 9 (threshold ex_rule)"
    by (simp add: ex_rule_def ex_state_def evaluateCondition_def)
  note fresh = cooldown_from_history
    [where ar = exact_arith and config = ex_config and i = "''low-battery''" and wt = ex_rule
       and now = 0]
  note unknown = cooldown_from_history
    [where ar = exact_arith and config = ex_config and i = "''unknown-rule''" and now = 0]
  have 5: "\<not> isWarningOnCooldown exact_arith ex_config 0 ''low-battery''"
    using fresh g0 by (simp add: ex_config_def defaultConfig_def)
  have 6: "isWarningOnCooldown exact_arith ex_config 0 ''unknown-rule''"
    using unknown gu by simp
  note fire = cooldown_from_history
    [where ar = exact_arith and config = ex_config and i = "''low-battery''" and wt = ex_rule and now = 0
       and hour = 12 and st = "ex_state 10" and w = ex_rule and trig = "[]" and v = 10
       and now' = "10 * 60000" and e = "ex_event 0" and x = "ex_event 0" and hour' = 12
       and st' = "ex_state 8"]
  have 8: "isWarningOnCooldown exact_arith (snd (checkWarning exact_arith 0 12 (ex_state 10) ex_rule ([], ex_config)))
             (10 * 60000) ''low-battery''"
  proof -
    have a: "\<not> isWarningOnCooldown exact_arith ex_config 0 (wt_id ex_rule)"
      "timeCondition ex_rule = Some ''daytime'' \<longrightarrow> isDaytime 12"
      "ex_state 10 (parameter ex_rule) = Some 10"
      "evaluateCondition (condition ex_rule) 10 (threshold ex_rule)"
      "getWarningTypeById ex_config (wt_id ex_rule) = Some ex_rule"
      "fdiv exact_arith (real_of_int (10 * 60000 - 0)) (1000 * 60) < cooldownMinutes ex_rule"
      using 5 g0 holds [of "ex_state 10"] by (simp_all add: ev exact_arith_simps)
    have "isWarningOnCooldown exact_arith (snd (checkWarning exact_arith 0 12 (ex_state 10) ex_rule ([], ex_config)))
             (10 * 60000) (wt_id ex_rule)"
      using fire a room0(2) exact_arith_monotone by blast
    then show ?thesis by (simp add: ev)
  qed
  note chain = cooldown_from_history
    [where ar = exact_arith and config = ex_config and i = "''low-battery''" and wt = ex_rule and x = "ex_event 0"
       and now = 0 and hour = 12 and st = "ex_state 10" and now' = "10 * 60000" and hour' = 12
       and st' = "ex_state 8" and e = "ex_event 0" and w = ex_rule and trig = "[]" and v = 10]
  have 1: "isWarningOnCooldown exact_arith ?c (10 * 60000) ''low-battery''"
    and 2: "\<forall>y\<in>set (fst (checkWarnings exact_arith (10 * 60000) 12 (ex_state 8) ?c)).
              warningTypeId y \<noteq> ''low-battery''"
  proof -
    have a: "ex_event 0 \<in> set (fst (checkWarnings exact_arith 0 12 (ex_state 10) ex_config))"
      "fdiv exact_arith (real_of_int (10 * 60000 - 0)) (1000 * 60) < cooldownMinutes ex_rule"
      "length (warningHistory (snd (checkWarnings exact_arith 0 12 (ex_state 10) ex_config))) +
         length (filter wt_enabled (warningTypes ex_config)) \<le> maxHistoryItems ex_config"
      using room(2) by (simp_all add: f ev exact_arith_simps)
    have "isWarningOnCooldown exact_arith (snd (checkWarnings exact_arith 0 12 (ex_state 10) ex_config)) (10 * 60000)
            ''low-battery'' \<and>
          (\<forall>y\<in>set (fst (checkWarnings exact_arith (10 * 60000) 12 (ex_state 8)
                         (snd (checkWarnings exact_arith 0 12 (ex_state 10) ex_config)))).
              warningTypeId y \<noteq> ''low-battery'')"
      using chain g0 ev(1) room0(1) a exact_arith_monotone by blast
    then show "isWarningOnCooldown exact_arith ?c (10 * 60000) ''low-battery''"
      and "\<forall>y\<in>set (fst (checkWarnings exact_arith (10 * 60000) 12 (ex_state 8) ?c)).
              warningTypeId y \<noteq> ''low-battery''"
      by (simp_all add: f)
  qed
  note old = cooldown_from_history
    [where ar = exact_arith and config = ?c and i = "''low-battery''" and wt = ex_rule and e = "ex_event 0"
       and now = "61 * 60000" and hour = 12 and st = "ex_state 9" and w = ex_rule and trig = "[]"
       and v = 9 and now' = "61 * 60000" and x = "ex_event 0" and hour' = 12
       and st' = "ex_state 9"]
  have 3: "\<not> isWarningOnCooldown exact_arith ?c (61 * 60000) ''low-battery''"
    using old g ev by (simp add: exact_arith_simps)
  have 4: "checkWarning exact_arith (61 * 60000) 12 (ex_state 9) ex_rule ([], ?c) =
             ([warningInstance ex_rule (61 * 60000) (ex_state 9) 9],
              addWarningToHistory (warningInstance ex_rule (61 * 60000) (ex_state 9) 9) ?c)"
  proof -
    have a: "\<not> isWarningOnCooldown exact_arith ?c (61 * 60000) (wt_id ex_rule)"
      "timeCondition ex_rule = Some ''daytime'' \<longrightarrow> isDaytime 12"
      using 3 by (simp_all add: ev ex_rule_def)
    have "checkWarning exact_arith (61 * 60000) 12 (ex_state 9) ex_rule ([], ?c) =
             ([] @ [warningInstance ex_rule (61 * 60000) (ex_state 9) 9],
              addWarningToHistory (warningInstance ex_rule (61 * 60000) (ex_state 9) 9) ?c)"
      using old a holds9 by blast
    then show ?thesis by simp
  qed
  have 7: "fst (checkWarnings exact_arith (10 * 60000) 12 (ex_state 8) ?c) = []"
    using 2 only by (cases "fst (checkWarnings exact_arith (10 * 60000) 12 (ex_state 8) ?c)") auto
  show ?thesis
    unfolding f using 1 3 4 5 6 7 8 ev(2) by simp
qed

text \<open>
  The claim as stated fails once the event has left the history. With
  \<open>maxHistoryItems = 1\<close> and two enabled rules, both fire at time 0, the history keeps
  only the second rule's event, and the first rule (cooldown 60 minutes) fires again ten
  minutes later. With the default cap, the rule fires at time 0, the history is cleared
  (\<^verbatim>\<open>clearWarningHistory\<close>), and the rule fires again ten minutes later.
\<close>

theorem cooldown_counterexample:
  "cooldownMinutes ex_rule = 60 \<and>
   map warningTypeId (fst (checkWarnings exact_arith 0 12 (ex_state 10) ex_config_cap1)) =
     [''low-battery'', ''low-pv''] \<and>
   map warningTypeId
     (fst (checkWarnings exact_arith (10 * 60000) 12 (ex_state 10)
            (snd (checkWarnings exact_arith 0 12 (ex_state 10) ex_config_cap1)))) =
     [''low-battery'', ''low-pv''] \<and>
   maxHistoryItems ex_config = 100 \<and>
   map warningTypeId (fst (checkWarnings exact_arith 0 12 (ex_state 10) ex_config)) = [''low-battery''] \<and>
   map warningTypeId
     (fst (checkWarnings exact_arith (10 * 60000) 12 (ex_state 10)
            (clearWarningHistory (snd (checkWarnings exact_arith 0 12 (ex_state 10) ex_config))))) =
     [''low-battery'']"
  by (simp add: checkWarnings_def checkWarning_def isWarningOnCooldown_def getWarningTypeById_def
      recentWarning_def evaluateCondition_def addWarningToHistory_def warningInstance_def
      clearWarningHistory_def ex_config_cap1_def ex_config_def ex_rule_def ex_rule_pv_def
      ex_state_def defaultConfig_def Let_def exact_arith_def)

section \<open>The daytime window\<close>

lemma isDaytime_iff: "isDaytime hour = (hour \<in> {8..18})"
  by (auto simp: isDaytime_def)

lemma daytime_rule_skipped_outside_window:
  "timeCondition w = Some ''daytime'' \<Longrightarrow> hour < 8 \<or> 18 < hour \<Longrightarrow>
   checkWarning ar now hour st w acc = acc"
  by (cases acc) (auto simp: checkWarning_def isDaytime_def)

text \<open>
  C8. At local hour 18 \<^verbatim>\<open>isDaytime\<close> (\<^verbatim>\<open>hour >= 8 && hour <= 18\<close>) still holds, so an
  enabled rule with \<^verbatim>\<open>timeCondition = 'daytime'\<close> whose condition holds is not skipped:
  it produces its event. The first hour at which it is skipped is 19. (The history of
  the example is empty, so no elapsed time is computed.)
\<close>

theorem daytime_rule_fires_at_hour_18:
  "isDaytime 18 \<and>
   timeCondition ex_rule_daytime = Some ''daytime'' \<and>
   map warningTypeId (fst (checkWarnings exact_arith 0 18 (ex_state 10) ex_config_daytime)) =
     [''low-battery''] \<and>
   fst (checkWarnings exact_arith 0 19 (ex_state 10) ex_config_daytime) = []"
  by (simp add: checkWarnings_def checkWarning_def isWarningOnCooldown_def getWarningTypeById_def
      recentWarning_def evaluateCondition_def addWarningToHistory_def warningInstance_def
      isDaytime_def ex_config_daytime_def ex_rule_daytime_def ex_rule_def ex_state_def
      defaultConfig_def Let_def exact_arith_def)

section \<open>The price signal\<close>

lemma futureHours_empty_iff:
  "(futureHours svc now (Suc n) = []) = (\<forall>q\<in>set (forecast (svc_cache svc)). startsAt q \<le> now)"
proof -
  have "(take (Suc n) (filter (\<lambda>price. startsAt price > now) (forecast (svc_cache svc))) = []) =
        (filter (\<lambda>price. startsAt price > now) (forecast (svc_cache svc)) = [])"
    by (cases "filter (\<lambda>price. startsAt price > now) (forecast (svc_cache svc))") simp_all
  then show ?thesis
    by (auto simp: futureHours_def filter_empty_conv)
qed

lemma calculateAveragePrice_None_iff:
  "(calculateAveragePrice ar svc now (Suc n) = None) =
     (\<forall>q\<in>set (forecast (svc_cache svc)). startsAt q \<le> now)"
  using futureHours_empty_iff [of svc now n]
  by (auto simp: calculateAveragePrice_def)

lemma calculateAveragePrice_Some:
  "calculateAveragePrice ar svc now hours = Some avg \<Longrightarrow>
   avg = fdiv ar
           (foldl (\<lambda>acc q. fadd ar acc (total q)) 0
              (take hours (filter (\<lambda>q. now < startsAt q) (forecast (svc_cache svc)))))
           (real (length (take hours (filter (\<lambda>q. now < startsAt q) (forecast (svc_cache svc))))))"
  by (auto simp: calculateAveragePrice_def futureHours_def split: if_splits)

text \<open>
  C2. For a given price point \<open>p\<close>, \<^verbatim>\<open>isPriceGood(p)\<close> follows the ladder:
  with \<open>usePriceLevels\<close> the answer is the membership of \<open>p\<close>'s level in
  \<open>allowedPriceLevels\<close>, whatever the numeric price, the cache, the clock and the
  arithmetic; otherwise, when the average over the forecast exists, it is
  \<open>total p < average\<close>; otherwise, with a threshold set, it is
  \<open>total p \<le> maxPriceThreshold\<close>; otherwise it is false. The average exists exactly when
  some forecast entry starts after \<open>now\<close>, and it is the one the code computes: the sum
  from the left, in the engine's rounding arithmetic, of \<open>total\<close> over the first 24
  entries that start after \<open>now\<close>, divided by their number.
\<close>

theorem isPriceGood_ladder:
  "(usePriceLevels (svc_config svc) \<longrightarrow>
      isPriceGood ar svc now (Some p) = (level p \<in> set (allowedPriceLevels (svc_config svc)))) \<and>
   (\<not> usePriceLevels (svc_config svc) \<and> calculateAveragePrice ar svc now 24 = Some avg \<longrightarrow>
      isPriceGood ar svc now (Some p) = (total p < avg)) \<and>
   (\<not> usePriceLevels (svc_config svc) \<and> calculateAveragePrice ar svc now 24 = None \<and>
    maxPriceThreshold (svc_config svc) = Some t \<longrightarrow>
      isPriceGood ar svc now (Some p) = (total p \<le> t)) \<and>
   (\<not> usePriceLevels (svc_config svc) \<and> calculateAveragePrice ar svc now 24 = None \<and>
    maxPriceThreshold (svc_config svc) = None \<longrightarrow>
      \<not> isPriceGood ar svc now (Some p)) \<and>
   ((calculateAveragePrice ar svc now 24 = None) =
      (\<forall>q\<in>set (forecast (svc_cache svc)). startsAt q \<le> now)) \<and>
   (calculateAveragePrice ar svc now 24 = Some avg \<longrightarrow>
      avg = fdiv ar
              (foldl (\<lambda>acc q. fadd ar acc (total q)) 0
                 (take 24 (filter (\<lambda>q. now < startsAt q) (forecast (svc_cache svc)))))
              (real (length (take 24 (filter (\<lambda>q. now < startsAt q) (forecast (svc_cache svc))))))) \<and>
   (usePriceLevels (svc_config svc) \<and> svc_config svc' = svc_config svc \<and> level p' = level p \<longrightarrow>
      isPriceGood ar' svc' now' (Some p') = isPriceGood ar svc now (Some p))"
proof -
  have n: "(calculateAveragePrice ar svc now 24 = None) =
      (\<forall>q\<in>set (forecast (svc_cache svc)). startsAt q \<le> now)"
    using calculateAveragePrice_None_iff [of ar svc now 23] by simp
  have s: "calculateAveragePrice ar svc now 24 = Some avg \<longrightarrow>
      avg = fdiv ar
              (foldl (\<lambda>acc q. fadd ar acc (total q)) 0
                 (take 24 (filter (\<lambda>q. now < startsAt q) (forecast (svc_cache svc)))))
              (real (length (take 24 (filter (\<lambda>q. now < startsAt q) (forecast (svc_cache svc))))))"
    using calculateAveragePrice_Some [of ar svc now 24 avg] by blast
  have l: "(usePriceLevels (svc_config svc) \<longrightarrow>
      isPriceGood ar svc now (Some p) = (level p \<in> set (allowedPriceLevels (svc_config svc)))) \<and>
   (\<not> usePriceLevels (svc_config svc) \<and> calculateAveragePrice ar svc now 24 = Some avg \<longrightarrow>
      isPriceGood ar svc now (Some p) = (total p < avg)) \<and>
   (\<not> usePriceLevels (svc_config svc) \<and> calculateAveragePrice ar svc now 24 = None \<and>
    maxPriceThreshold (svc_config svc) = Some t \<longrightarrow>
      isPriceGood ar svc now (Some p) = (total p \<le> t)) \<and>
   (\<not> usePriceLevels (svc_config svc) \<and> calculateAveragePrice ar svc now 24 = None \<and>
    maxPriceThreshold (svc_config svc) = None \<longrightarrow>
      \<not> isPriceGood ar svc now (Some p)) \<and>
   (usePriceLevels (svc_config svc) \<and> svc_config svc' = svc_config svc \<and> level p' = level p \<longrightarrow>
      isPriceGood ar' svc' now' (Some p') = isPriceGood ar svc now (Some p))"
    by (simp add: isPriceGood_def)
  from l n s show ?thesis by blast
qed

theorem isPriceGood_ladder_witness:
  "isPriceGood exact_arith (ex_service defaultTibberConfig []) 0 (Some (ex_point 0 999 ''CHEAP'')) \<and>
   \<not> isPriceGood exact_arith (ex_service defaultTibberConfig []) 0
       (Some (ex_point 0 1 ''EXPENSIVE'')) \<and>
   calculateAveragePrice exact_arith
     (ex_service (defaultTibberConfig\<lparr>usePriceLevels := False\<rparr>)
        [ex_point (- hour_ms) 5 ''CHEAP'', ex_point hour_ms 10 ''CHEAP'', ex_point (2 * hour_ms) 30 ''NORMAL''])
     0 24 = Some 20 \<and>
   isPriceGood exact_arith
     (ex_service (defaultTibberConfig\<lparr>usePriceLevels := False\<rparr>)
        [ex_point (- hour_ms) 5 ''CHEAP'', ex_point hour_ms 10 ''CHEAP'', ex_point (2 * hour_ms) 30 ''NORMAL''])
     0 (Some (ex_point 0 15 ''EXPENSIVE'')) \<and>
   \<not> isPriceGood exact_arith
     (ex_service (defaultTibberConfig\<lparr>usePriceLevels := False\<rparr>)
        [ex_point (- hour_ms) 5 ''CHEAP'', ex_point hour_ms 10 ''CHEAP'', ex_point (2 * hour_ms) 30 ''NORMAL''])
     0 (Some (ex_point 0 20 ''VERY_CHEAP'')) \<and>
   calculateAveragePrice ex_double_arith
     (ex_service (defaultTibberConfig\<lparr>usePriceLevels := False\<rparr>)
        [ex_point hour_ms double_0_1 ''CHEAP'', ex_point (2 * hour_ms) double_0_2 ''CHEAP'',
         ex_point (3 * hour_ms) double_0_3 ''CHEAP''])
     0 24 = Some (7205759403792795 / 36028797018963968) \<and>
   isPriceGood ex_double_arith
     (ex_service (defaultTibberConfig\<lparr>usePriceLevels := False\<rparr>)
        [ex_point hour_ms double_0_1 ''CHEAP'', ex_point (2 * hour_ms) double_0_2 ''CHEAP'',
         ex_point (3 * hour_ms) double_0_3 ''CHEAP''])
     0 (Some (ex_point 0 double_0_2 ''CHEAP'')) \<and>
   isPriceGood exact_arith
     (ex_service (defaultTibberConfig\<lparr>usePriceLevels := False, maxPriceThreshold := Some 25\<rparr>) [])
     0 (Some (ex_point 0 25 ''EXPENSIVE'')) \<and>
   \<not> isPriceGood exact_arith
     (ex_service (defaultTibberConfig\<lparr>usePriceLevels := False, maxPriceThreshold := Some 25\<rparr>) [])
     0 (Some (ex_point 0 26 ''VERY_CHEAP'')) \<and>
   \<not> isPriceGood exact_arith (ex_service (defaultTibberConfig\<lparr>usePriceLevels := False\<rparr>) [])
     0 (Some (ex_point 0 0 ''VERY_CHEAP''))"
proof -
  let ?fc = "[ex_point (- hour_ms) 5 ''CHEAP'', ex_point hour_ms 10 ''CHEAP'',
              ex_point (2 * hour_ms) 30 ''NORMAL'']"
  let ?avg = "ex_service (defaultTibberConfig\<lparr>usePriceLevels := False\<rparr>) ?fc"
  let ?dbl = "ex_service (defaultTibberConfig\<lparr>usePriceLevels := False\<rparr>)
        [ex_point hour_ms double_0_1 ''CHEAP'', ex_point (2 * hour_ms) double_0_2 ''CHEAP'',
         ex_point (3 * hour_ms) double_0_3 ''CHEAP'']"
  let ?thr = "ex_service (defaultTibberConfig\<lparr>usePriceLevels := False, maxPriceThreshold := Some 25\<rparr>) []"
  let ?non = "ex_service (defaultTibberConfig\<lparr>usePriceLevels := False\<rparr>) []"
  have a: "calculateAveragePrice exact_arith ?avg 0 24 = Some 20"
    by (simp add: calculateAveragePrice_def futureHours_def ex_service_def ex_point_def
        emptyCache_def hour_ms_def exact_arith_def)
  have d: "calculateAveragePrice ex_double_arith ?dbl 0 24 =
             Some (7205759403792795 / 36028797018963968)"
    by (simp add: calculateAveragePrice_def futureHours_def ex_service_def ex_point_def
        emptyCache_def hour_ms_def ex_double_arith_def double_0_1_def double_0_2_def
        double_0_3_def)
  have e: "calculateAveragePrice exact_arith ?thr 0 24 = None"
    "calculateAveragePrice exact_arith ?non 0 24 = None"
    by (simp_all add: calculateAveragePrice_def ex_service_def emptyCache_def)
  have c: "usePriceLevels (svc_config (ex_service defaultTibberConfig []))"
    "allowedPriceLevels (svc_config (ex_service defaultTibberConfig [])) =
       [''VERY_CHEAP'', ''CHEAP'', ''NORMAL'']"
    "\<not> usePriceLevels (svc_config ?avg)" "\<not> usePriceLevels (svc_config ?thr)"
    "\<not> usePriceLevels (svc_config ?non)"
    "maxPriceThreshold (svc_config ?thr) = Some 25" "maxPriceThreshold (svc_config ?non) = None"
    "\<not> usePriceLevels (svc_config ?dbl)"
    by (simp_all add: ex_service_def defaultTibberConfig_def)
  have p: "\<And>t x l. level (ex_point t x l) = l" "\<And>t x l. total (ex_point t x l) = x"
    by (simp_all add: ex_point_def)
  have 1: "isPriceGood exact_arith (ex_service defaultTibberConfig []) 0
             (Some (ex_point 0 999 ''CHEAP''))"
    using isPriceGood_ladder [where ar = exact_arith and svc = "ex_service defaultTibberConfig []"
        and now = 0 and p = "ex_point 0 999 ''CHEAP''"]
    by (simp add: c p)
  have 2: "\<not> isPriceGood exact_arith (ex_service defaultTibberConfig []) 0
             (Some (ex_point 0 1 ''EXPENSIVE''))"
    using isPriceGood_ladder [where ar = exact_arith and svc = "ex_service defaultTibberConfig []"
        and now = 0 and p = "ex_point 0 1 ''EXPENSIVE''"]
    by (simp add: c p)
  have 3: "isPriceGood exact_arith ?avg 0 (Some (ex_point 0 15 ''EXPENSIVE''))"
    using isPriceGood_ladder [where ar = exact_arith and svc = ?avg and now = 0 and avg = 20
        and p = "ex_point 0 15 ''EXPENSIVE''"] a c(3)
    by (simp add: p)
  have 4: "\<not> isPriceGood exact_arith ?avg 0 (Some (ex_point 0 20 ''VERY_CHEAP''))"
    using isPriceGood_ladder [where ar = exact_arith and svc = ?avg and now = 0 and avg = 20
        and p = "ex_point 0 20 ''VERY_CHEAP''"] a c(3)
    by (simp add: p)
  have 5: "isPriceGood exact_arith ?thr 0 (Some (ex_point 0 25 ''EXPENSIVE''))"
    using isPriceGood_ladder [where ar = exact_arith and svc = ?thr and now = 0 and t = 25
        and p = "ex_point 0 25 ''EXPENSIVE''"] e(1) c(4,6)
    by (simp add: p)
  have 6: "\<not> isPriceGood exact_arith ?thr 0 (Some (ex_point 0 26 ''VERY_CHEAP''))"
    using isPriceGood_ladder [where ar = exact_arith and svc = ?thr and now = 0 and t = 25
        and p = "ex_point 0 26 ''VERY_CHEAP''"] e(1) c(4,6)
    by (simp add: p)
  have 7: "\<not> isPriceGood exact_arith ?non 0 (Some (ex_point 0 0 ''VERY_CHEAP''))"
    using isPriceGood_ladder [where ar = exact_arith and svc = ?non and now = 0
        and p = "ex_point 0 0 ''VERY_CHEAP''"] e(2) c(5,7)
    by (simp add: p)
  have 8: "isPriceGood ex_double_arith ?dbl 0 (Some (ex_point 0 double_0_2 ''CHEAP''))"
    using isPriceGood_ladder [where ar = ex_double_arith and svc = ?dbl and now = 0
        and avg = "7205759403792795 / 36028797018963968"
        and p = "ex_point 0 double_0_2 ''CHEAP''"] d c(8)
    by (simp add: p double_0_2_def)
  show ?thesis
    using a d 1 2 3 4 5 6 7 8 by blast
qed

section \<open>Cheapest hours\<close>


lemma insort_total_tiebreak:
  assumes "sorted_wrt (\<lambda>a b. total a < total b \<or> (total a = total b \<and> startsAt a \<le> startsAt b)) ys"
    and "\<forall>y\<in>set ys. startsAt x \<le> startsAt y"
  shows "sorted_wrt (\<lambda>a b. total a < total b \<or> (total a = total b \<and> startsAt a \<le> startsAt b))
           (insort_key total x ys)"
  using assms
proof (induction ys)
  case Nil
  then show ?case by simp
next
  case (Cons y ys)
  show ?case
  proof (cases "total x \<le> total y")
    case True
    have "\<forall>z\<in>set (y # ys). total x < total z \<or> (total x = total z \<and> startsAt x \<le> startsAt z)"
      using True Cons.prems by fastforce
    then show ?thesis using True Cons.prems(1) by simp
  next
    case False
    have "sorted_wrt (\<lambda>a b. total a < total b \<or> (total a = total b \<and> startsAt a \<le> startsAt b))
            (insort_key total x ys)"
      using Cons by simp
    then show ?thesis using False Cons.prems(1) by (auto simp: set_insort_key)
  qed
qed

lemma sort_total_tiebreak:
  "sorted (map startsAt xs) \<Longrightarrow>
   sorted_wrt (\<lambda>a b. total a < total b \<or> (total a = total b \<and> startsAt a \<le> startsAt b))
     (sort_key total xs)"
proof (induction xs)
  case Nil
  then show ?case by simp
next
  case (Cons x xs)
  then show ?case
    by (simp add: insort_total_tiebreak)
qed

lemma futureHours_sorted:
  "sorted (map startsAt (forecast (svc_cache svc))) \<Longrightarrow>
   sorted (map startsAt (futureHours svc now hoursAhead))"
  unfolding futureHours_def take_map [symmetric]
  by (intro sorted_wrt_take) (simp add: sorted_filter)

lemma futureHours_future: "p \<in> set (futureHours svc now hoursAhead) \<Longrightarrow> now < startsAt p"
  by (auto simp: futureHours_def dest: in_set_takeD)

lemma cheapest_subset:
  "set (getCheapestHours svc now count hoursAhead) \<subseteq> cheapHour ` set (futureHours svc now hoursAhead)"
proof -
  have "set (take count (sort_key total (futureHours svc now hoursAhead)))
          \<subseteq> set (futureHours svc now hoursAhead)"
    using set_take_subset [of count "sort_key total (futureHours svc now hoursAhead)"] by simp
  then show ?thesis by (auto simp: getCheapestHours_def)
qed

lemma futureHours_Nil: "forecast (svc_cache svc) = [] \<Longrightarrow> futureHours svc now hoursAhead = []"
  by (simp add: futureHours_def)

lemma getCheapestHours_eq:
  "getCheapestHours svc now count hoursAhead =
     map cheapHour (take count (sort_key total (futureHours svc now hoursAhead)))"
  by (simp add: getCheapestHours_def futureHours_Nil)

lemma cheapest_sorted: "sorted (map ch_price (getCheapestHours svc now count hoursAhead))"
proof -
  have "map ch_price (getCheapestHours svc now count hoursAhead) =
          take count (map total (sort_key total (futureHours svc now hoursAhead)))"
    by (simp add: getCheapestHours_eq take_map cheapHour_def comp_def)
  then show ?thesis by (simp add: sorted_wrt_take)
qed

lemma cheapest_tiebreak:
  assumes "sorted (map startsAt (forecast (svc_cache svc)))"
  shows "sorted_wrt (\<lambda>a b. ch_price a < ch_price b \<or> (ch_price a = ch_price b \<and> ch_time a \<le> ch_time b))
           (getCheapestHours svc now count hoursAhead)"
proof -
  have "sorted_wrt (\<lambda>a b. total a < total b \<or> (total a = total b \<and> startsAt a \<le> startsAt b))
          (take count (sort_key total (futureHours svc now hoursAhead)))"
    using sort_total_tiebreak [OF futureHours_sorted [OF assms]] by (rule sorted_wrt_take)
  then show ?thesis
    by (simp add: getCheapestHours_eq sorted_wrt_map cheapHour_def)
qed

lemma cheapest_stable:
  "prefix (filter (\<lambda>h. ch_price h = k) (getCheapestHours svc now count hoursAhead))
          (map cheapHour (filter (\<lambda>p. total p = k) (futureHours svc now hoursAhead)))"
proof -
  let ?s = "sort_key total (futureHours svc now hoursAhead)"
  have "prefix (filter (\<lambda>p. total p = k) (take count ?s)) (filter (\<lambda>p. total p = k) ?s)"
    by (intro filter_mono_prefix take_is_prefix)
  then have "prefix (map cheapHour (filter (\<lambda>p. total p = k) (take count ?s)))
                    (map cheapHour (filter (\<lambda>p. total p = k) (futureHours svc now hoursAhead)))"
    by (simp add: sort_key_stable map_mono_prefix)
  moreover have "filter (\<lambda>h. ch_price h = k) (map cheapHour (take count ?s)) =
                 map cheapHour (filter (\<lambda>p. total p = k) (take count ?s))"
    by (simp add: filter_map comp_def cheapHour_def)
  ultimately show ?thesis by (simp add: getCheapestHours_eq)
qed

lemma hourly_nth:
  "successively (\<lambda>a b. startsAt a \<le> startsAt b \<and> startsAt b \<le> startsAt a + hour_ms) (q # fc) \<Longrightarrow>
   i < length (q # fc) \<Longrightarrow>
   startsAt q \<le> startsAt ((q # fc) ! i) \<and> startsAt ((q # fc) ! i) \<le> startsAt q + int i * hour_ms"
proof (induction fc arbitrary: q i)
  case Nil
  then show ?case by simp
next
  case (Cons r fc)
  show ?case
  proof (cases i)
    case 0
    then show ?thesis by simp
  next
    case (Suc j)
    have "startsAt r \<le> startsAt ((r # fc) ! j) \<and> startsAt ((r # fc) ! j) \<le> startsAt r + int j * hour_ms"
      using Cons.IH [of r j] Cons.prems Suc by simp
    moreover have "startsAt q \<le> startsAt r \<and> startsAt r \<le> startsAt q + hour_ms"
      using Cons.prems(1) by simp
    ultimately show ?thesis using Suc by (simp add: algebra_simps)
  qed
qed

lemma hourly_future_nth:
  "successively (\<lambda>a b. startsAt a \<le> startsAt b \<and> startsAt b \<le> startsAt a + hour_ms) (p # fc) \<Longrightarrow>
   startsAt p \<le> now \<Longrightarrow>
   i < length (filter (\<lambda>x. now < startsAt x) fc) \<Longrightarrow>
   startsAt (filter (\<lambda>x. now < startsAt x) fc ! i) \<le> now + (int i + 1) * hour_ms"
proof (induction fc arbitrary: p)
  case Nil
  then show ?case by simp
next
  case (Cons q fc)
  have pq: "startsAt q \<le> startsAt p + hour_ms"
    and s: "successively (\<lambda>a b. startsAt a \<le> startsAt b \<and> startsAt b \<le> startsAt a + hour_ms) (q # fc)"
    using Cons.prems(1) by simp_all
  show ?case
  proof (cases "now < startsAt q")
    case False
    then show ?thesis using Cons.IH [OF s] Cons.prems(3) by simp
  next
    case True
    have "\<forall>x\<in>set (q # fc). now < startsAt x"
    proof
      fix x assume "x \<in> set (q # fc)"
      then obtain k where "k < length (q # fc)" "x = (q # fc) ! k"
        by (metis in_set_conv_nth)
      then show "now < startsAt x" using hourly_nth [OF s, of k] True by simp
    qed
    then have f: "filter (\<lambda>x. now < startsAt x) (q # fc) = q # fc"
      by (simp only: filter_True)
    have "startsAt ((q # fc) ! i) \<le> startsAt q + int i * hour_ms"
      using hourly_nth [OF s, of i] Cons.prems(3) f by simp
    then show ?thesis using f pq Cons.prems(2) by (simp add: algebra_simps)
  qed
qed

lemma futureHours_within_hours:
  assumes "successively (\<lambda>a b. startsAt a \<le> startsAt b \<and> startsAt b \<le> startsAt a + hour_ms)
             (forecast (svc_cache svc))"
    and "forecast (svc_cache svc) \<noteq> []"
    and "startsAt (hd (forecast (svc_cache svc))) \<le> now"
    and "x \<in> set (futureHours svc now hoursAhead)"
  shows "startsAt x \<le> now + int hoursAhead * hour_ms"
proof -
  obtain p fc where fc: "forecast (svc_cache svc) = p # fc"
    using assms(2) by (cases "forecast (svc_cache svc)") auto
  have p: "startsAt p \<le> now" using assms(3) fc by simp
  let ?fut = "filter (\<lambda>x. now < startsAt x) fc"
  have fh: "futureHours svc now hoursAhead = take hoursAhead ?fut"
    using fc p by (simp add: futureHours_def)
  obtain i where i: "i < length (take hoursAhead ?fut)" "x = take hoursAhead ?fut ! i"
    using assms(4) fh by (metis in_set_conv_nth)
  then have il: "i < length ?fut" "i < hoursAhead" by simp_all
  have "startsAt (?fut ! i) \<le> now + (int i + 1) * hour_ms"
    using hourly_future_nth [of p fc now i] assms(1) fc p il(1) by simp
  moreover have "(int i + 1) * hour_ms \<le> int hoursAhead * hour_ms"
    using il(2) by (simp add: hour_ms_def)
  ultimately show ?thesis using i(2) il by simp
qed

lemma cheapest_within_hours:
  assumes "successively (\<lambda>a b. startsAt a \<le> startsAt b \<and> startsAt b \<le> startsAt a + hour_ms)
             (forecast (svc_cache svc))"
    and "forecast (svc_cache svc) \<noteq> []"
    and "startsAt (hd (forecast (svc_cache svc))) \<le> now"
  shows "\<forall>h\<in>set (getCheapestHours svc now count hoursAhead).
           ch_time h \<le> now + int hoursAhead * hour_ms"
  using cheapest_subset [of svc now count hoursAhead] futureHours_within_hours [OF assms]
  by (auto simp: cheapHour_def)

text \<open>
  C6 (amended). For every cached forecast, \<open>count\<close> and \<open>hoursAhead\<close>,
  \<^verbatim>\<open>getCheapestHours\<close> returns at most \<open>count\<close> entries (and at most \<open>hoursAhead\<close>), each
  starting strictly after \<open>now\<close> and each taken from the first \<open>hoursAhead\<close> future entries
  of the forecast (a number of entries, not a time window), sorted ascending by price;
  entries of equal price keep their forecast order, so ties are broken by the earliest
  start when the forecast is in chronological order. The entries lie within the next
  \<open>hoursAhead\<close> hours when the forecast is chronological with steps of at most one hour
  and begins at or before \<open>now\<close>.
\<close>

theorem cheapest_hours_sorted_future:
  "length (getCheapestHours svc now count hoursAhead) \<le> count \<and>
   length (getCheapestHours svc now count hoursAhead) \<le> hoursAhead \<and>
   (\<forall>h\<in>set (getCheapestHours svc now count hoursAhead). now < ch_time h) \<and>
   set (getCheapestHours svc now count hoursAhead)
     \<subseteq> cheapHour ` set (take hoursAhead (filter (\<lambda>p. now < startsAt p) (forecast (svc_cache svc)))) \<and>
   sorted (map ch_price (getCheapestHours svc now count hoursAhead)) \<and>
   (\<forall>k. prefix (filter (\<lambda>h. ch_price h = k) (getCheapestHours svc now count hoursAhead))
          (map cheapHour (filter (\<lambda>p. total p = k)
             (take hoursAhead (filter (\<lambda>p. now < startsAt p) (forecast (svc_cache svc))))))) \<and>
   (sorted (map startsAt (forecast (svc_cache svc))) \<longrightarrow>
      sorted_wrt (\<lambda>a b. ch_price a < ch_price b \<or> (ch_price a = ch_price b \<and> ch_time a \<le> ch_time b))
        (getCheapestHours svc now count hoursAhead)) \<and>
   (successively (\<lambda>a b. startsAt a \<le> startsAt b \<and> startsAt b \<le> startsAt a + hour_ms)
      (forecast (svc_cache svc)) \<and>
    forecast (svc_cache svc) \<noteq> [] \<and> startsAt (hd (forecast (svc_cache svc))) \<le> now \<longrightarrow>
      (\<forall>h\<in>set (getCheapestHours svc now count hoursAhead).
         ch_time h \<le> now + int hoursAhead * hour_ms))"
proof -
  have f: "take hoursAhead (filter (\<lambda>p. now < startsAt p) (forecast (svc_cache svc))) =
           futureHours svc now hoursAhead"
    by (simp add: futureHours_def)
  have 1: "length (getCheapestHours svc now count hoursAhead) \<le> count"
    and 2: "length (getCheapestHours svc now count hoursAhead) \<le> hoursAhead"
    by (simp_all add: getCheapestHours_eq futureHours_def)
  have 3: "\<forall>h\<in>set (getCheapestHours svc now count hoursAhead). now < ch_time h"
    using cheapest_subset [of svc now count hoursAhead] futureHours_future [of _ svc now hoursAhead]
    by (auto simp: cheapHour_def)
  have 4: "successively (\<lambda>a b. startsAt a \<le> startsAt b \<and> startsAt b \<le> startsAt a + hour_ms)
      (forecast (svc_cache svc)) \<and>
    forecast (svc_cache svc) \<noteq> [] \<and> startsAt (hd (forecast (svc_cache svc))) \<le> now \<longrightarrow>
      (\<forall>h\<in>set (getCheapestHours svc now count hoursAhead).
         ch_time h \<le> now + int hoursAhead * hour_ms)"
    using cheapest_within_hours [of svc now count hoursAhead] by blast
  have 5: "set (getCheapestHours svc now count hoursAhead)
             \<subseteq> cheapHour ` set (futureHours svc now hoursAhead)"
    by (rule cheapest_subset)
  have 6: "sorted (map ch_price (getCheapestHours svc now count hoursAhead))"
    by (rule cheapest_sorted)
  have 7: "\<forall>k. prefix (filter (\<lambda>h. ch_price h = k) (getCheapestHours svc now count hoursAhead))
          (map cheapHour (filter (\<lambda>p. total p = k) (futureHours svc now hoursAhead)))"
    using cheapest_stable by blast
  have 8: "sorted (map startsAt (forecast (svc_cache svc))) \<longrightarrow>
      sorted_wrt (\<lambda>a b. ch_price a < ch_price b \<or> (ch_price a = ch_price b \<and> ch_time a \<le> ch_time b))
        (getCheapestHours svc now count hoursAhead)"
    using cheapest_tiebreak by blast
  show ?thesis
    unfolding f
    by (intro conjI 1 2 3 4 5 6 7 8)
qed

theorem cheapest_hours_sorted_future_witness:
  "sorted (map startsAt (forecast (svc_cache (ex_service defaultTibberConfig
      [ex_point 0 1 ''CHEAP'', ex_point hour_ms 20 ''NORMAL'', ex_point (2 * hour_ms) 10 ''CHEAP'',
       ex_point (3 * hour_ms) 20 ''NORMAL'', ex_point (4 * hour_ms) 5 ''CHEAP''])))) \<and>
   successively (\<lambda>a b. startsAt a \<le> startsAt b \<and> startsAt b \<le> startsAt a + hour_ms)
     (forecast (svc_cache (ex_service defaultTibberConfig
      [ex_point 0 1 ''CHEAP'', ex_point hour_ms 20 ''NORMAL'', ex_point (2 * hour_ms) 10 ''CHEAP'',
       ex_point (3 * hour_ms) 20 ''NORMAL'', ex_point (4 * hour_ms) 5 ''CHEAP'']))) \<and>
   map ch_time (getCheapestHours (ex_service defaultTibberConfig
      [ex_point 0 1 ''CHEAP'', ex_point hour_ms 20 ''NORMAL'', ex_point (2 * hour_ms) 10 ''CHEAP'',
       ex_point (3 * hour_ms) 20 ''NORMAL'', ex_point (4 * hour_ms) 5 ''CHEAP'']) 0 4 24) =
     [4 * hour_ms, 2 * hour_ms, hour_ms, 3 * hour_ms] \<and>
   sorted_wrt (\<lambda>a b. ch_price a < ch_price b \<or> (ch_price a = ch_price b \<and> ch_time a \<le> ch_time b))
     (getCheapestHours (ex_service defaultTibberConfig
      [ex_point 0 1 ''CHEAP'', ex_point hour_ms 20 ''NORMAL'', ex_point (2 * hour_ms) 10 ''CHEAP'',
       ex_point (3 * hour_ms) 20 ''NORMAL'', ex_point (4 * hour_ms) 5 ''CHEAP'']) 0 4 24) \<and>
   list_all (\<lambda>h. 0 < ch_time h \<and> ch_time h \<le> 0 + int 24 * hour_ms)
     (getCheapestHours (ex_service defaultTibberConfig
      [ex_point 0 1 ''CHEAP'', ex_point hour_ms 20 ''NORMAL'', ex_point (2 * hour_ms) 10 ''CHEAP'',
       ex_point (3 * hour_ms) 20 ''NORMAL'', ex_point (4 * hour_ms) 5 ''CHEAP'']) 0 4 24) \<and>
   length (getCheapestHours (ex_service defaultTibberConfig
      [ex_point 0 1 ''CHEAP'', ex_point hour_ms 20 ''NORMAL'', ex_point (2 * hour_ms) 10 ''CHEAP'',
       ex_point (3 * hour_ms) 20 ''NORMAL'', ex_point (4 * hour_ms) 5 ''CHEAP'']) 0 4 24) \<le> 4"
proof -
  let ?svc = "ex_service defaultTibberConfig
      [ex_point 0 1 ''CHEAP'', ex_point hour_ms 20 ''NORMAL'', ex_point (2 * hour_ms) 10 ''CHEAP'',
       ex_point (3 * hour_ms) 20 ''NORMAL'', ex_point (4 * hour_ms) 5 ''CHEAP'']"
  have s: "sorted (map startsAt (forecast (svc_cache ?svc)))"
    by (simp add: ex_service_def emptyCache_def ex_point_def hour_ms_def)
  have h: "successively (\<lambda>a b. startsAt a \<le> startsAt b \<and> startsAt b \<le> startsAt a + hour_ms)
             (forecast (svc_cache ?svc))"
    "forecast (svc_cache ?svc) \<noteq> []" "startsAt (hd (forecast (svc_cache ?svc))) \<le> 0"
    by (simp_all add: ex_service_def emptyCache_def ex_point_def hour_ms_def)
  have v: "map ch_time (getCheapestHours ?svc 0 4 24) = [4 * hour_ms, 2 * hour_ms, hour_ms, 3 * hour_ms]"
    by (simp add: getCheapestHours_def futureHours_def cheapHour_def ex_service_def emptyCache_def
        ex_point_def hour_ms_def)
  have l: "list_all (\<lambda>h. 0 < ch_time h \<and> ch_time h \<le> 0 + int 24 * hour_ms)
             (getCheapestHours ?svc 0 4 24)"
    using cheapest_hours_sorted_future [of ?svc 0 4 24] h
    unfolding list_all_iff by blast
  show ?thesis
    using cheapest_hours_sorted_future [of ?svc 0 4 24] s h(1) v l by blast
qed

text \<open>
  The claim as stated fails on two counts. A forecast in chronological order with a gap:
  with \<open>hoursAhead = 24\<close> the entry that starts 30 hours from now is returned (first, being
  the cheaper one). A forecast that is not in chronological order: of two entries of
  equal price the one that starts later is returned first.
\<close>

theorem cheapest_hours_counterexample:
  "map ch_time (getCheapestHours (ex_service defaultTibberConfig
      [ex_point hour_ms 30 ''NORMAL'', ex_point (30 * hour_ms) 20 ''CHEAP'']) 0 6 24) =
     [30 * hour_ms, hour_ms] \<and>
   \<not> 30 * hour_ms \<le> 0 + 24 * hour_ms \<and>
   map ch_time (getCheapestHours (ex_service defaultTibberConfig
      [ex_point (2 * hour_ms) 20 ''CHEAP'', ex_point hour_ms 20 ''CHEAP'']) 0 6 24) =
     [2 * hour_ms, hour_ms] \<and>
   map ch_price (getCheapestHours (ex_service defaultTibberConfig
      [ex_point (2 * hour_ms) 20 ''CHEAP'', ex_point hour_ms 20 ''CHEAP'']) 0 6 24) = [20, 20] \<and>
   \<not> 2 * hour_ms \<le> hour_ms"
  by (simp add: getCheapestHours_def futureHours_def cheapHour_def ex_service_def emptyCache_def
      ex_point_def hour_ms_def)

section \<open>Refresh failures\<close>

lemma cachePriceInfo_failure:
  "cachePriceInfo now pinfo svc = (Inl e, svc') \<Longrightarrow> svc' = svc"
  by (auto simp: cachePriceInfo_def Let_def split: option.splits)

lemma getPriceInfoFromFirstHome_failure:
  "getPriceInfoFromFirstHome api now svc = (Inl e, svc') \<Longrightarrow> svc' = svc"
  by (auto simp: getPriceInfoFromFirstHome_def split: sum.splits option.splits list.splits
      dest: cachePriceInfo_failure)

lemma getCurrentPriceInfo_failure:
  "getCurrentPriceInfo api now h svc = (Inl e, svc') \<Longrightarrow> svc' = svc"
  by (auto simp: getCurrentPriceInfo_def Let_def split: sum.splits option.splits if_splits
      dest: cachePriceInfo_failure getPriceInfoFromFirstHome_failure)

lemma refreshData_failure:
  "\<not> fst (refreshData api now svc) \<Longrightarrow> snd (refreshData api now svc) = svc"
  by (auto simp: refreshData_def split: if_splits prod.splits sum.splits
      dest: getCurrentPriceInfo_failure)

lemma makeGraphQLRequest_throws:
  "api (apiKey (svc_config svc)) query = RequestFailed e \<or>
   api (apiKey (svc_config svc)) query = ResponseErrors errors \<Longrightarrow>
   \<exists>e'. makeGraphQLRequest api svc query = Inl e'"
  by (auto simp: makeGraphQLRequest_def split: list.splits)

lemma getCurrentPriceInfo_throws:
  assumes "\<exists>e'. makeGraphQLRequest api svc (refreshQuery svc) = Inl e'"
  shows "\<exists>e'. getCurrentPriceInfo api now None svc = (Inl e', svc)"
  using assms
  by (auto simp: getCurrentPriceInfo_def getPriceInfoFromFirstHome_def refreshQuery_def Let_def)

lemma refreshData_request_failed:
  assumes "api (apiKey (svc_config svc)) (refreshQuery svc) = RequestFailed e \<or>
           api (apiKey (svc_config svc)) (refreshQuery svc) = ResponseErrors errors"
  shows "\<not> fst (refreshData api now svc)"
proof -
  obtain e' where "getCurrentPriceInfo api now None svc = (Inl e', svc)"
    using getCurrentPriceInfo_throws [of api svc now]
      makeGraphQLRequest_throws [of api svc "refreshQuery svc" e errors] assms
    by blast
  then show ?thesis by (simp add: refreshData_def)
qed

text \<open>
  C5. A refresh that fails returns \<^verbatim>\<open>false\<close> (the result of \<^verbatim>\<open>refreshData\<close> is a Boolean
  in every case; nothing is thrown to the caller) and leaves the service as it was: the
  cached current price and forecast are the ones held before. It fails when the provider
  is disabled, when the API key is missing or the masked placeholder, when the request
  is rejected in transport, and when the API answers with errors (rejected credentials).
\<close>

theorem refresh_failure_keeps_cache:
  "(\<not> fst (refreshData api now svc) \<longrightarrow>
      snd (refreshData api now svc) = svc \<and>
      currentPrice (svc_cache (snd (refreshData api now svc))) = currentPrice (svc_cache svc) \<and>
      forecast (svc_cache (snd (refreshData api now svc))) = forecast (svc_cache svc)) \<and>
   (\<not> enabled (svc_config svc) \<longrightarrow> \<not> fst (refreshData api now svc)) \<and>
   (apiKey (svc_config svc) = [] \<or> apiKey (svc_config svc) = ''***'' \<longrightarrow>
      \<not> fst (refreshData api now svc)) \<and>
   (api (apiKey (svc_config svc)) (refreshQuery svc) = RequestFailed e \<longrightarrow>
      \<not> fst (refreshData api now svc)) \<and>
   (api (apiKey (svc_config svc)) (refreshQuery svc) = ResponseErrors errors \<longrightarrow>
      \<not> fst (refreshData api now svc))"
proof -
  have 1: "\<not> fst (refreshData api now svc) \<longrightarrow> snd (refreshData api now svc) = svc"
    using refreshData_failure by blast
  have 2: "\<not> enabled (svc_config svc) \<longrightarrow> \<not> fst (refreshData api now svc)"
    and 3: "apiKey (svc_config svc) = [] \<or> apiKey (svc_config svc) = ''***'' \<longrightarrow>
      \<not> fst (refreshData api now svc)"
    by (simp_all add: refreshData_def)
  have 4: "api (apiKey (svc_config svc)) (refreshQuery svc) = RequestFailed e \<longrightarrow>
      \<not> fst (refreshData api now svc)"
    and 5: "api (apiKey (svc_config svc)) (refreshQuery svc) = ResponseErrors errors \<longrightarrow>
      \<not> fst (refreshData api now svc)"
    using refreshData_request_failed by blast+
  show ?thesis
    using 1 2 3 4 5 by metis
qed

theorem refresh_failure_keeps_cache_witness:
  "refreshData ex_api_down (5 * hour_ms) ex_cached = (False, ex_cached) \<and>
   refreshData ex_api (5 * hour_ms) (ex_cached\<lparr>svc_config := ex_tibber_config\<lparr>apiKey := ''wrong-token''\<rparr>\<rparr>) =
     (False, ex_cached\<lparr>svc_config := ex_tibber_config\<lparr>apiKey := ''wrong-token''\<rparr>\<rparr>) \<and>
   refreshData ex_api (5 * hour_ms) (ex_cached\<lparr>svc_config := ex_tibber_config\<lparr>apiKey := ''***''\<rparr>\<rparr>) =
     (False, ex_cached\<lparr>svc_config := ex_tibber_config\<lparr>apiKey := ''***''\<rparr>\<rparr>) \<and>
   refreshData ex_api (5 * hour_ms) (ex_cached\<lparr>svc_config := ex_tibber_config\<lparr>enabled := False\<rparr>\<rparr>) =
     (False, ex_cached\<lparr>svc_config := ex_tibber_config\<lparr>enabled := False\<rparr>\<rparr>) \<and>
   fst (refreshData ex_api (5 * hour_ms) ex_cached) \<and>
   map total (forecast (svc_cache (snd (refreshData ex_api (5 * hour_ms) ex_cached)))) = [20, 40]"
proof -
  let ?wrong = "ex_cached\<lparr>svc_config := ex_tibber_config\<lparr>apiKey := ''wrong-token''\<rparr>\<rparr>"
  let ?masked = "ex_cached\<lparr>svc_config := ex_tibber_config\<lparr>apiKey := ''***''\<rparr>\<rparr>"
  let ?off = "ex_cached\<lparr>svc_config := ex_tibber_config\<lparr>enabled := False\<rparr>\<rparr>"
  have 1: "refreshData ex_api_down (5 * hour_ms) ex_cached = (False, ex_cached)"
    using refresh_failure_keeps_cache [of ex_api_down "5 * hour_ms" ex_cached
        "AxiosError ''timeout of 15000ms exceeded''"]
    by (simp add: ex_api_down_def prod_eq_iff)
  have 2: "refreshData ex_api (5 * hour_ms) ?wrong = (False, ?wrong)"
    using refresh_failure_keeps_cache [of ex_api "5 * hour_ms" ?wrong _ "[''invalid token'']"]
    by (simp add: ex_api_def ex_cached_def ex_tibber_config_def prod_eq_iff)
  have 3: "refreshData ex_api (5 * hour_ms) ?masked = (False, ?masked)"
    using refresh_failure_keeps_cache [of ex_api "5 * hour_ms" ?masked]
    by (simp add: ex_cached_def ex_tibber_config_def prod_eq_iff)
  have 4: "refreshData ex_api (5 * hour_ms) ?off = (False, ?off)"
    using refresh_failure_keeps_cache [of ex_api "5 * hour_ms" ?off]
    by (simp add: ex_cached_def ex_tibber_config_def prod_eq_iff)
  have 5: "fst (refreshData ex_api (5 * hour_ms) ex_cached) \<and>
     map total (forecast (svc_cache (snd (refreshData ex_api (5 * hour_ms) ex_cached)))) = [20, 40]"
    by (simp add: refreshData_def getCurrentPriceInfo_def getPriceInfoFromFirstHome_def
        makeGraphQLRequest_def cachePriceInfo_def saveCache_def convertPrice_def ex_api_def
        ex_cached_def ex_tibber_config_def defaultTibberConfig_def ex_point_def Let_def)
  show ?thesis using 1 2 3 4 5 by blast
qed

section \<open>Configuration updates\<close>

lemma find_DE:
  "find (\<lambda>c. code c = ''DE'') getSupportedCountries =
     Some (countryOf ''DE'' ''Germany'' ''Europe/Berlin'' ''EUR'')"
  by (simp add: getSupportedCountries_def countryOf_def)

lemma getCountrySettings_total: "\<exists>cd. getCountrySettings c = Some cd"
  by (auto simp: getCountrySettings_def Let_def find_DE split: option.splits)

lemma truthy_Some: "truthy (Some c) = (c \<noteq> [])"
  by (simp add: truthy_def)

lemma updateConfig_apiKey:
  "apiKey (svc_config (updateConfig upd svc)) =
     (if u_apiKey upd = Some ''***'' \<or> u_apiKey upd = Some ''******'' \<or> u_apiKey upd = Some []
      then apiKey (svc_config svc)
      else spread (apiKey (svc_config svc)) (u_apiKey upd))"
  by (auto simp: updateConfig_def mergeConfig_def Let_def spread_def split: option.splits)

lemma updateConfig_currency:
  "cfg_currency (svc_config (updateConfig upd svc)) =
     (case u_country upd of
        None \<Rightarrow> spread (cfg_currency (svc_config svc)) (u_currency upd)
      | Some c \<Rightarrow>
          if c \<noteq> [] \<and> \<not> truthy (u_currency upd)
          then (case getCountrySettings c of
                  Some cd \<Rightarrow> country_currency cd
                | None \<Rightarrow> spread (cfg_currency (svc_config svc)) (u_currency upd))
          else spread (cfg_currency (svc_config svc)) (u_currency upd))"
  by (auto simp: updateConfig_def mergeConfig_def Let_def spread_def split: option.splits)

lemma updateConfig_other_fields:
  "enabled (svc_config (updateConfig upd svc)) = spread (enabled (svc_config svc)) (u_enabled upd) \<and>
   homeId (svc_config (updateConfig upd svc)) = spread (homeId (svc_config svc)) (u_homeId upd) \<and>
   country (svc_config (updateConfig upd svc)) = spread (country (svc_config svc)) (u_country upd) \<and>
   timezone (svc_config (updateConfig upd svc)) = spread (timezone (svc_config svc)) (u_timezone upd) \<and>
   targetSoC (svc_config (updateConfig upd svc)) = spread (targetSoC (svc_config svc)) (u_targetSoC upd) \<and>
   minimumSoC (svc_config (updateConfig upd svc)) =
     spread (minimumSoC (svc_config svc)) (u_minimumSoC upd) \<and>
   maxPriceThreshold (svc_config (updateConfig upd svc)) =
     spread (maxPriceThreshold (svc_config svc)) (u_maxPriceThreshold upd) \<and>
   usePriceLevels (svc_config (updateConfig upd svc)) =
     spread (usePriceLevels (svc_config svc)) (u_usePriceLevels upd) \<and>
   allowedPriceLevels (svc_config (updateConfig upd svc)) =
     spread (allowedPriceLevels (svc_config svc)) (u_allowedPriceLevels upd) \<and>
   svc_cache (updateConfig upd svc) = svc_cache svc \<and>
   lastUpdate (updateConfig upd svc) = lastUpdate svc"
  by (auto simp: updateConfig_def mergeConfig_def Let_def split: option.splits)

text \<open>
  C10 (amended). When the update carries the masked placeholder or the empty string as
  \<open>apiKey\<close>, the stored key is the one held before. Every other field but the currency is
  the supplied value where one is supplied and the old value otherwise (\<open>spread\<close>). The
  currency follows the country: when the update names a country and holds no currency
  (or an empty one), the currency becomes that country's; otherwise it is merged like
  the other fields.
\<close>

theorem updateConfig_keeps_masked_key:
  "(u_apiKey upd = Some ''***'' \<or> u_apiKey upd = Some ''******'' \<or> u_apiKey upd = Some [] \<longrightarrow>
      apiKey (svc_config (updateConfig upd svc)) = apiKey (svc_config svc)) \<and>
   enabled (svc_config (updateConfig upd svc)) = spread (enabled (svc_config svc)) (u_enabled upd) \<and>
   homeId (svc_config (updateConfig upd svc)) = spread (homeId (svc_config svc)) (u_homeId upd) \<and>
   country (svc_config (updateConfig upd svc)) = spread (country (svc_config svc)) (u_country upd) \<and>
   timezone (svc_config (updateConfig upd svc)) = spread (timezone (svc_config svc)) (u_timezone upd) \<and>
   targetSoC (svc_config (updateConfig upd svc)) = spread (targetSoC (svc_config svc)) (u_targetSoC upd) \<and>
   minimumSoC (svc_config (updateConfig upd svc)) =
     spread (minimumSoC (svc_config svc)) (u_minimumSoC upd) \<and>
   maxPriceThreshold (svc_config (updateConfig upd svc)) =
     spread (maxPriceThreshold (svc_config svc)) (u_maxPriceThreshold upd) \<and>
   usePriceLevels (svc_config (updateConfig upd svc)) =
     spread (usePriceLevels (svc_config svc)) (u_usePriceLevels upd) \<and>
   allowedPriceLevels (svc_config (updateConfig upd svc)) =
     spread (allowedPriceLevels (svc_config svc)) (u_allowedPriceLevels upd) \<and>
   (truthy (u_country upd) \<and> \<not> truthy (u_currency upd) \<longrightarrow>
      (\<exists>c cd. u_country upd = Some c \<and> getCountrySettings c = Some cd \<and>
         cfg_currency (svc_config (updateConfig upd svc)) = country_currency cd)) \<and>
   (\<not> truthy (u_country upd) \<or> truthy (u_currency upd) \<longrightarrow>
      cfg_currency (svc_config (updateConfig upd svc)) =
        spread (cfg_currency (svc_config svc)) (u_currency upd))"
proof -
  have k: "u_apiKey upd = Some ''***'' \<or> u_apiKey upd = Some ''******'' \<or> u_apiKey upd = Some [] \<longrightarrow>
      apiKey (svc_config (updateConfig upd svc)) = apiKey (svc_config svc)"
    by (simp add: updateConfig_apiKey)
  have c1: "truthy (u_country upd) \<and> \<not> truthy (u_currency upd) \<longrightarrow>
      (\<exists>c cd. u_country upd = Some c \<and> getCountrySettings c = Some cd \<and>
         cfg_currency (svc_config (updateConfig upd svc)) = country_currency cd)"
  proof (cases "u_country upd")
    case None
    then show ?thesis by (simp add: truthy_def)
  next
    case (Some c)
    obtain cd where "getCountrySettings c = Some cd"
      using getCountrySettings_total by blast
    then show ?thesis
      using Some by (simp add: updateConfig_currency truthy_Some)
  qed
  have c2: "\<not> truthy (u_country upd) \<or> truthy (u_currency upd) \<longrightarrow>
      cfg_currency (svc_config (updateConfig upd svc)) =
        spread (cfg_currency (svc_config svc)) (u_currency upd)"
    by (cases "u_country upd") (auto simp: updateConfig_currency truthy_Some truthy_def)
  show ?thesis
    using k c1 c2 updateConfig_other_fields [of upd svc] by blast
qed

lemma getCountrySettings_no: "getCountrySettings ''no'' = Some (countryOf ''NO'' ''Norway'' ''Europe/Oslo'' ''NOK'')"
  by (simp add: getCountrySettings_def getSupportedCountries_def countryOf_def toUpperCase_def
      upperChar_def Let_def)

theorem updateConfig_keeps_masked_key_witness:
  "apiKey (svc_config (updateConfig
      (noUpdate\<lparr>u_apiKey := Some ''***'', u_enabled := Some False, u_targetSoC := Some 90,
                u_country := Some ''no''\<rparr>) ex_cached)) = ''secret-token'' \<and>
   \<not> enabled (svc_config (updateConfig
      (noUpdate\<lparr>u_apiKey := Some ''***'', u_enabled := Some False, u_targetSoC := Some 90,
                u_country := Some ''no''\<rparr>) ex_cached)) \<and>
   targetSoC (svc_config (updateConfig
      (noUpdate\<lparr>u_apiKey := Some ''***'', u_enabled := Some False, u_targetSoC := Some 90,
                u_country := Some ''no''\<rparr>) ex_cached)) = 90 \<and>
   cfg_currency (svc_config (updateConfig
      (noUpdate\<lparr>u_apiKey := Some ''***'', u_enabled := Some False, u_targetSoC := Some 90,
                u_country := Some ''no''\<rparr>) ex_cached)) = ''NOK''"
  using updateConfig_keeps_masked_key
    [of "noUpdate\<lparr>u_apiKey := Some ''***'', u_enabled := Some False, u_targetSoC := Some 90,
                   u_country := Some ''no''\<rparr>" ex_cached]
  by (simp add: noUpdate_def spread_def truthy_def getCountrySettings_no countryOf_def
      ex_cached_def ex_tibber_config_def defaultTibberConfig_def)

text \<open>
  The claim as stated fails for the currency: an update with the masked key, the country
  \<^verbatim>\<open>NO\<close> and an empty currency does not store the supplied (empty) currency but \<^verbatim>\<open>NOK\<close>.
\<close>

theorem updateConfig_counterexample:
  "u_currency (noUpdate\<lparr>u_apiKey := Some ''***'', u_country := Some ''NO'', u_currency := Some []\<rparr>)
     = Some [] \<and>
   cfg_currency (svc_config ex_cached) = ''EUR'' \<and>
   cfg_currency (svc_config (updateConfig
      (noUpdate\<lparr>u_apiKey := Some ''***'', u_country := Some ''NO'', u_currency := Some []\<rparr>)
      ex_cached)) = ''NOK''"
  by (simp add: updateConfig_def mergeConfig_def spread_def truthy_def noUpdate_def
      getCountrySettings_def getSupportedCountries_def countryOf_def toUpperCase_def
      upperChar_def ex_cached_def ex_tibber_config_def defaultTibberConfig_def Let_def)

section \<open>Broadcast to the notification sinks\<close>

lemma sendToChats_eq:
  "sendToChats post token message cs (n, sent) =
     (n + length (filter (\<lambda>c. post token c message = Inr ()) cs),
      sent @ map (sendOutcome post token message) cs)"
proof (induction cs arbitrary: n sent)
  case Nil
  then show ?case by simp
next
  case (Cons c cs)
  show ?case
  proof (cases "post token c message")
    case (Inl e)
    then show ?thesis using Cons.IH by (simp add: sendOutcome_def)
  next
    case (Inr u)
    then show ?thesis using Cons.IH by (simp add: sendOutcome_def)
  qed
qed

lemma filter_nonempty_iff: "(0 < length (filter P xs)) = (\<exists>x\<in>set xs. P x)"
  by (induction xs) auto

text \<open>
  C7. A broadcast to the configured chats tries every chat, in order, whatever the
  earlier sends did: the log holds one entry per chat, with the error where the send
  threw (the \<^verbatim>\<open>catch\<close> logs it and the loop goes on; the result of \<^verbatim>\<open>broadcastMessage\<close>
  is a Boolean in every case). The overall result is success exactly when the
  dispatcher is configured and at least one send succeeded; a dispatcher that is
  disabled or has no token sends nothing.
\<close>

theorem broadcast_isolates_sink_failures:
  "(tg_enabled config \<and> botToken config \<noteq> [] \<longrightarrow>
      snd (broadcastMessage post config message) =
        map (sendOutcome post (botToken config) message) (chatIds config) \<and>
      map fst (snd (broadcastMessage post config message)) = chatIds config) \<and>
   (\<not> tg_enabled config \<or> botToken config = [] \<longrightarrow> snd (broadcastMessage post config message) = []) \<and>
   fst (broadcastMessage post config message) =
     (tg_enabled config \<and> botToken config \<noteq> [] \<and>
      (\<exists>chatId\<in>set (chatIds config). post (botToken config) chatId message = Inr ()))"
proof (cases "\<not> tg_enabled config \<or> botToken config = [] \<or> length (chatIds config) = 0")
  case True
  then show ?thesis by (auto simp: broadcastMessage_def)
next
  case False
  have f: "map fst (map (sendOutcome post (botToken config) message) (chatIds config)) = chatIds config"
    by (simp add: comp_def sendOutcome_def)
  show ?thesis
    using False f
    by (simp add: broadcastMessage_def sendToChats_eq filter_nonempty_iff del: length_greater_0_conv)
qed

theorem broadcast_isolates_sink_failures_witness:
  "fst (broadcastMessage ex_sink ex_telegram ''Battery low'') \<and>
   snd (broadcastMessage ex_sink ex_telegram ''Battery low'') =
     [(''1001'', None), (''1002'', Some (AxiosError ''Request failed with status code 403'')),
      (''1003'', None)] \<and>
   \<not> fst (broadcastMessage ex_sink_down ex_telegram ''Battery low'') \<and>
   map fst (snd (broadcastMessage ex_sink_down ex_telegram ''Battery low'')) =
     [''1001'', ''1002'', ''1003''] \<and>
   broadcastMessage ex_sink (ex_telegram\<lparr>tg_enabled := False\<rparr>) ''Battery low'' = (False, [])"
proof -
  have c: "tg_enabled ex_telegram" "botToken ex_telegram = ''bot-token''"
    "chatIds ex_telegram = [''1001'', ''1002'', ''1003'']"
    by (simp_all add: ex_telegram_def telegram_defaultConfig_def)
  have 1: "fst (broadcastMessage ex_sink ex_telegram ''Battery low'') \<and>
     snd (broadcastMessage ex_sink ex_telegram ''Battery low'') =
     [(''1001'', None), (''1002'', Some (AxiosError ''Request failed with status code 403'')),
      (''1003'', None)]"
    using broadcast_isolates_sink_failures [of ex_telegram ex_sink "''Battery low''"]
    by (simp add: c ex_sink_def sendOutcome_def)
  have 2: "\<not> fst (broadcastMessage ex_sink_down ex_telegram ''Battery low'') \<and>
     map fst (snd (broadcastMessage ex_sink_down ex_telegram ''Battery low'')) =
     [''1001'', ''1002'', ''1003'']"
    using broadcast_isolates_sink_failures [of ex_telegram ex_sink_down "''Battery low''"]
    by (simp add: c ex_sink_down_def sendOutcome_def)
  have 3: "broadcastMessage ex_sink (ex_telegram\<lparr>tg_enabled := False\<rparr>) ''Battery low'' = (False, [])"
    using broadcast_isolates_sink_failures
      [of "ex_telegram\<lparr>tg_enabled := False\<rparr>" ex_sink "''Battery low''"]
    by (simp add: prod_eq_iff)
  show ?thesis using 1 2 3 by blast
qed

section \<open>Corrupted configuration documents\<close>

lemma loadConfig_corrupted:
  assumes "files fs configFile = Some (Unparsable payload)"
    and "writable fs (configFile @ ''.corrupted.'' @ digits now)"
    and "writable fs configFile"
  shows "fst (loadConfig now fs) = defaultTibberConfig"
    and "files (snd (loadConfig now fs)) (configFile @ ''.corrupted.'' @ digits now) =
           Some (Unparsable payload)"
    and "files (snd (loadConfig now fs)) configFile = Some (Json defaultTibberConfig)"
  using assms
  by (simp_all add: loadConfig_def tryLoad_def existsSync_def readFileSync_def JSON_parse_def
      writeFileSync_def saveConfigSync_def Let_def)

lemma loadConfig_never_throws_default:
  "files fs configFile = Some (Unparsable payload) \<Longrightarrow> fst (loadConfig now fs) = defaultTibberConfig"
  by (simp add: loadConfig_def tryLoad_def existsSync_def readFileSync_def JSON_parse_def
      writeFileSync_def saveConfigSync_def Let_def split: sum.splits prod.splits)

lemma getConfig_corrupted:
  "files fs WARNINGS_CONFIG_FILE = Some (Unparsable payload) \<Longrightarrow>
   getConfig fs = Inr (defaultConfig, fs)"
  by (simp add: getConfig_def ensureConfigFile_def existsSync_def readFileSync_def JSON_parse_def)

lemma telegram_getConfig_corrupted:
  "files fs TELEGRAM_CONFIG_FILE = Some (Unparsable payload) \<Longrightarrow>
   telegram_getConfig fs = Inr (telegram_defaultConfig, fs)"
  by (simp add: telegram_getConfig_def telegram_ensureConfigFile_def existsSync_def
      readFileSync_def JSON_parse_def)

text \<open>
  C9. Loading never fails on a corrupted document, but only the price configuration is
  backed up. With the unparsable payload in \<^verbatim>\<open>warnings_config.json\<close>, \<^verbatim>\<open>getConfig\<close> answers
  the defaults and writes nothing, so no backup exists, and the next writer
  (\<^verbatim>\<open>addWarningType\<close> here) overwrites the payload with a document built on the defaults.
  The same holds for \<^verbatim>\<open>telegram_config.json\<close>. \<^verbatim>\<open>loadConfig\<close> of the price provider, on
  the same payload, keeps it under \<^verbatim>\<open>tibber_config.json.corrupted.<timestamp>\<close>.
\<close>

theorem corrupted_warning_config_not_backed_up:
  "getConfig ex_warning_files = Inr (defaultConfig, ex_warning_files) \<and>
   dom (files ex_warning_files) = {WARNINGS_CONFIG_FILE} \<and>
   addWarningType ex_warning_files 1700000000000 ex_rule =
     Inr (Some ex_rule,
          ex_warning_files\<lparr>files :=
            [WARNINGS_CONFIG_FILE \<mapsto> Json (defaultConfig\<lparr>warningTypes := [ex_rule]\<rparr>)]\<rparr>) \<and>
   telegram_getConfig ex_telegram_files = Inr (telegram_defaultConfig, ex_telegram_files) \<and>
   dom (files ex_telegram_files) = {TELEGRAM_CONFIG_FILE} \<and>
   fst (loadConfig 1700000000000 ex_tibber_files) = defaultTibberConfig \<and>
   files (snd (loadConfig 1700000000000 ex_tibber_files))
     ''../data/tibber_config.json.corrupted.1700000000000'' = Some (Unparsable ex_payload)"
proof -
  have w: "files ex_warning_files WARNINGS_CONFIG_FILE = Some (Unparsable ex_payload)"
    by (simp add: ex_warning_files_def)
  have 1: "getConfig ex_warning_files = Inr (defaultConfig, ex_warning_files)"
    using getConfig_corrupted [OF w] .
  have 2: "dom (files ex_warning_files) = {WARNINGS_CONFIG_FILE}"
    "dom (files ex_telegram_files) = {TELEGRAM_CONFIG_FILE}"
    by (simp_all add: ex_warning_files_def ex_telegram_files_def)
  have 3: "addWarningType ex_warning_files 1700000000000 ex_rule =
     Inr (Some ex_rule,
          ex_warning_files\<lparr>files :=
            [WARNINGS_CONFIG_FILE \<mapsto> Json (defaultConfig\<lparr>warningTypes := [ex_rule]\<rparr>)]\<rparr>)"
    unfolding addWarningType_def 1
    by (simp add: saveConfig_def ensureConfigFile_def existsSync_def
        writeFileSync_def ex_warning_files_def defaultConfig_def ex_rule_def Let_def)
  have t: "files ex_telegram_files TELEGRAM_CONFIG_FILE = Some (Unparsable ex_payload)"
    by (simp add: ex_telegram_files_def)
  have 4: "telegram_getConfig ex_telegram_files = Inr (telegram_defaultConfig, ex_telegram_files)"
    using telegram_getConfig_corrupted [OF t] .
  have d: "digits 1700000000000 = ''1700000000000''"
    by (simp add: digits.simps)
  have 5: "fst (loadConfig 1700000000000 ex_tibber_files) = defaultTibberConfig"
    "files (snd (loadConfig 1700000000000 ex_tibber_files))
       (configFile @ ''.corrupted.'' @ digits 1700000000000) = Some (Unparsable ex_payload)"
    using loadConfig_corrupted [of ex_tibber_files ex_payload 1700000000000]
    by (simp_all add: ex_tibber_files_def)
  have 6: "files (snd (loadConfig 1700000000000 ex_tibber_files))
     ''../data/tibber_config.json.corrupted.1700000000000'' = Some (Unparsable ex_payload)"
    using 5(2) by (simp add: d configFile_def)
  show ?thesis using 1 2 3 4 5(1) 6 by blast
qed

section \<open>Safety override of the decision engine\<close>

text \<open>
  C1. When the battery is at or above the target state of charge, or the grid voltage is
  outside 200 V to 250 V, the decision is to stop charging with mode "Solar first" (in
  the legacy vocabulary: grid charge disabled), whatever the price signal, the PV
  production and the load are.
\<close>

theorem safety_override_wins:
  "battery_soc s \<ge> targetSoC (svc_config svc) \<or> grid_voltage s < 200 \<or> grid_voltage s > 250 \<Longrightarrow>
   decision (decide eps ar svc now s) = STOP_CHARGING \<and>
   mode (decide eps ar svc now s) = Solar_first \<and>
   grid_charge (mode (decide eps ar svc now s)) = ''Disabled''"
  by (simp add: decide_def grid_charge_def)

theorem safety_override_wins_witness:
  "isPriceGood exact_arith ex_cheap 0 None \<and>
   decision (decide 0 exact_arith ex_cheap 0 (ex_snapshot 82 230)) = STOP_CHARGING \<and>
   mode (decide 0 exact_arith ex_cheap 0 (ex_snapshot 82 230)) = Solar_first \<and>
   decision (decide 0 exact_arith ex_cheap 0 (ex_snapshot 30 190)) = STOP_CHARGING \<and>
   mode (decide 0 exact_arith ex_cheap 0 (ex_snapshot 30 190)) = Solar_first \<and>
   grid_charge (mode (decide 0 exact_arith ex_cheap 0 (ex_snapshot 30 190))) = ''Disabled'' \<and>
   decision (decide 0 exact_arith ex_cheap 0 (ex_snapshot 40 230)) = START_CHARGING \<and>
   mode (decide 0 exact_arith ex_cheap 0 (ex_snapshot 40 230)) = Utility_first"
proof -
  have p: "isPriceGood exact_arith ex_cheap 0 None"
    by (simp add: isPriceGood_def ex_cheap_def defaultTibberConfig_def emptyCache_def ex_point_def)
  have t: "targetSoC (svc_config ex_cheap) = 80"
    by (simp add: ex_cheap_def defaultTibberConfig_def)
  have h1: "battery_soc (ex_snapshot 82 230) \<ge> targetSoC (svc_config ex_cheap) \<or>
      grid_voltage (ex_snapshot 82 230) < 200 \<or> grid_voltage (ex_snapshot 82 230) > 250"
    by (simp add: t ex_snapshot_def)
  have h2: "battery_soc (ex_snapshot 30 190) \<ge> targetSoC (svc_config ex_cheap) \<or>
      grid_voltage (ex_snapshot 30 190) < 200 \<or> grid_voltage (ex_snapshot 30 190) > 250"
    by (simp add: t ex_snapshot_def)
  note 1 = safety_override_wins [OF h1, of 0 exact_arith 0]
  note 2 = safety_override_wins [OF h2, of 0 exact_arith 0]
  have 3: "decision (decide 0 exact_arith ex_cheap 0 (ex_snapshot 40 230)) = START_CHARGING \<and>
     mode (decide 0 exact_arith ex_cheap 0 (ex_snapshot 40 230)) = Utility_first"
    by (simp add: decide_def p t ex_snapshot_def)
  show ?thesis using p 1 2 3 by blast
qed

end
